theory Spec2Isabelle
  imports Main "HOL-Library.Word"
begin

unbundle bit_operations_syntax

section \<open>ISO 14443 Type B firmware core (armsrc/iso14443b.c)\<close>

text \<open>
  Machine types of the source: \<open>uint8_t\<close>, \<open>uint16_t\<close> and \<open>uint32_t\<close> are words of
  that width; an \<open>int\<close> that only counts a few samples is an \<open>int\<close>.
\<close>

type_synonym u8 = "8 word"
type_synonym u16 = "16 word"
type_synonym u32 = "32 word"

subsection \<open>Session state and timing\<close>

text \<open>The process-wide variables \<open>s_iso14b_pcb_blocknum\<close>, \<open>s_iso14b_fwt\<close> and
  \<open>s_iso14b_timeout\<close>.\<close>

record session =
  s_iso14b_pcb_blocknum :: u8
  s_iso14b_fwt :: u8
  s_iso14b_timeout :: u32

definition session_init :: session where
  "session_init = \<lparr>s_iso14b_pcb_blocknum = 0, s_iso14b_fwt = 9, s_iso14b_timeout = 16777120\<rparr>"

definition MAX_14B_TIMEOUT :: u32 where
  "MAX_14B_TIMEOUT = 16777120"

text \<open>Modelled from the spec: the macro \<open>HF14_ETU_TO_SSP\<close> (header iso14b.h) is not among
  the sources. The specification fixes one ETU at 32 reader-mode SSP ticks; the product is
  taken in \<open>uint32_t\<close>.\<close>

definition HF14_ETU_TO_SSP :: "u32 \<Rightarrow> u32" where
  "HF14_ETU_TO_SSP x = x * 32"

text \<open>Modelled from the spec: the constant \<open>MAX_FRAME_SIZE\<close> (header common.h) is not
  among the sources. The specification bounds frames by 256 bytes.\<close>

definition MAX_FRAME_SIZE :: int where
  "MAX_FRAME_SIZE = 256"

definition iso14b_set_timeout :: "u32 \<Rightarrow> session \<Rightarrow> session" where
  "iso14b_set_timeout timeout_etu s =
     (let ssp = HF14_ETU_TO_SSP timeout_etu;
          ssp = (if ssp > MAX_14B_TIMEOUT then MAX_14B_TIMEOUT else ssp)
      in s\<lparr>s_iso14b_timeout := ssp\<rparr>)"

text \<open>The C expression \<open>32 << n\<close>: the left operand is a 32-bit \<open>int\<close>, so the value is
  defined only while \<open>32 * 2 ^ n\<close> fits an \<open>int\<close>, that is for \<open>n < 26\<close>. \<open>None\<close> stands
  for a shift the C standard leaves undefined.\<close>

definition shl_32 :: "nat \<Rightarrow> u32 option" where
  "shl_32 n = (if n < 26 then Some (push_bit n 32) else None)"

definition iso14b_set_fwt :: "u8 \<Rightarrow> session \<Rightarrow> session option" where
  "iso14b_set_fwt fwt s =
     (case shl_32 (unat fwt) of
        None \<Rightarrow> None
      | Some etu \<Rightarrow> Some (iso14b_set_timeout etu (s\<lparr>s_iso14b_fwt := fwt\<rparr>)))"

subsection \<open>The reader-direction software UART\<close>

datatype uart_state =
    STATE_14B_UNSYNCD
  | STATE_14B_GOT_FALLING_EDGE_OF_SOF
  | STATE_14B_AWAITING_START_BIT
  | STATE_14B_RECEIVING_DATA

text \<open>The \<open>Uart\<close> structure, each field under the name \<open>Uart_\<close>field. \<open>Uart_output\<close>
  is the memory the pointer \<open>Uart.output\<close> refers to, addressed by byte offset.\<close>

record uart =
  Uart_state :: uart_state
  Uart_shiftReg :: u16
  Uart_bitCnt :: int
  Uart_byteCnt :: int
  Uart_byteCntMax :: int
  Uart_posCnt :: int
  Uart_output :: "nat \<Rightarrow> u8"

definition Uart14bReset :: "uart \<Rightarrow> uart" where
  "Uart14bReset u = u\<lparr>Uart_state := STATE_14B_UNSYNCD, Uart_shiftReg := 0, Uart_bitCnt := 0,
     Uart_byteCnt := 0, Uart_byteCntMax := MAX_FRAME_SIZE, Uart_posCnt := 0\<rparr>"

definition Uart14bInit :: "(nat \<Rightarrow> u8) \<Rightarrow> uart \<Rightarrow> uart" where
  "Uart14bInit data u = Uart14bReset (u\<lparr>Uart_output := data\<rparr>)"

definition iso14b_set_maxframesize :: "u16 \<Rightarrow> uart \<Rightarrow> uart" where
  "iso14b_set_maxframesize sz u =
     (let sz' = (if sz > 256 then MAX_FRAME_SIZE else uint sz)
      in u\<lparr>Uart_byteCntMax := sz'\<rparr>)"


text \<open>One call of \<open>Handle14443bSampleFromReader\<close>, made four times per bit period. The
  result pairs the return value with the updated \<open>Uart\<close>. The counters are C \<open>int\<close>s that
  the state machine keeps small, so they are unbounded integers here.\<close>

definition Handle14443bSampleFromReader :: "bool \<Rightarrow> uart \<Rightarrow> bool \<times> uart" where
  "Handle14443bSampleFromReader b u =
     (case Uart_state u of
        STATE_14B_UNSYNCD \<Rightarrow>
          (if \<not> b
           then (False, u\<lparr>Uart_state := STATE_14B_GOT_FALLING_EDGE_OF_SOF,
                           Uart_posCnt := 0, Uart_bitCnt := 0\<rparr>)
           else (False, u))
      | STATE_14B_GOT_FALLING_EDGE_OF_SOF \<Rightarrow>
          (let u1 = u\<lparr>Uart_posCnt := Uart_posCnt u + 1\<rparr>;
               u2 = (if Uart_posCnt u1 = 2
                     then (let u' = (if b
                                     then (if Uart_bitCnt u1 > 9
                                           then u1\<lparr>Uart_posCnt := 0, Uart_byteCnt := 0,
                                                   Uart_state := STATE_14B_AWAITING_START_BIT\<rparr>
                                           else u1\<lparr>Uart_state := STATE_14B_UNSYNCD\<rparr>)
                                     else u1)
                           in u'\<lparr>Uart_bitCnt := Uart_bitCnt u' + 1\<rparr>)
                     else u1);
               u3 = (if Uart_posCnt u2 \<ge> 4 then u2\<lparr>Uart_posCnt := 0\<rparr> else u2);
               u4 = (if Uart_bitCnt u3 > 12 then u3\<lparr>Uart_state := STATE_14B_UNSYNCD\<rparr> else u3)
           in (False, u4))
      | STATE_14B_AWAITING_START_BIT \<Rightarrow>
          (let u1 = u\<lparr>Uart_posCnt := Uart_posCnt u + 1\<rparr>
           in if b
              then (if Uart_posCnt u1 > 50 div 2
                    then (False, u1\<lparr>Uart_state := STATE_14B_UNSYNCD\<rparr>)
                    else (False, u1))
              else (False, u1\<lparr>Uart_posCnt := 0, Uart_bitCnt := 0, Uart_shiftReg := 0,
                               Uart_state := STATE_14B_RECEIVING_DATA\<rparr>))
      | STATE_14B_RECEIVING_DATA \<Rightarrow>
          (let u1 = u\<lparr>Uart_posCnt := Uart_posCnt u + 1\<rparr>;
               u2 = (if Uart_posCnt u1 = 2
                     then (let r = drop_bit 1 (Uart_shiftReg u1);
                               r' = (if b then r OR 0x200 else r)
                           in u1\<lparr>Uart_shiftReg := r', Uart_bitCnt := Uart_bitCnt u1 + 1\<rparr>)
                     else u1);
               u3 = (if Uart_posCnt u2 \<ge> 4 then u2\<lparr>Uart_posCnt := 0\<rparr> else u2)
           in if Uart_bitCnt u3 = 10
              then (if Uart_shiftReg u3 AND 0x200 \<noteq> 0 \<and> \<not> (Uart_shiftReg u3 AND 0x001 \<noteq> 0)
                    then (let u4 = u3\<lparr>Uart_output := (Uart_output u3)
                                      (nat (Uart_byteCnt u3) :=
                                         ucast (drop_bit 1 (Uart_shiftReg u3) AND 0xFF))\<rparr>;
                              u5 = u4\<lparr>Uart_byteCnt := Uart_byteCnt u4 + 1\<rparr>
                          in if Uart_byteCnt u5 \<ge> Uart_byteCntMax u5
                             then (False, u5\<lparr>Uart_state := STATE_14B_UNSYNCD\<rparr>)
                             else (False, u5\<lparr>Uart_posCnt := 0,
                                              Uart_state := STATE_14B_AWAITING_START_BIT\<rparr>))
                    else if Uart_shiftReg u3 = 0x000
                    then (let u4 = u3\<lparr>Uart_state := STATE_14B_UNSYNCD\<rparr>
                          in if Uart_byteCnt u4 \<noteq> 0 then (True, u4) else (False, u4))
                    else (False, u3\<lparr>Uart_state := STATE_14B_UNSYNCD\<rparr>))
              else (False, u3)))"

text \<open>The UART after each of a sequence of quarter-ETU samples, and after the last one.\<close>

fun uart_trace :: "bool list \<Rightarrow> uart \<Rightarrow> uart list" where
  "uart_trace [] u = []"
| "uart_trace (b # bs) u =
     snd (Handle14443bSampleFromReader b u)
       # uart_trace bs (snd (Handle14443bSampleFromReader b u))"

fun uart_feed :: "bool list \<Rightarrow> uart \<Rightarrow> uart" where
  "uart_feed [] u = u"
| "uart_feed (b # bs) u = uart_feed bs (snd (Handle14443bSampleFromReader b u))"

text \<open>A start of frame as the reader sends it, aligned with the falling edge: \<open>n\<close> bit periods
  of zero, four samples each, then a one up to and including its mid-bit sample (the third
  sample of the period, where \<open>posCnt\<close> is 2).\<close>

definition sof_run :: "nat \<Rightarrow> bool list" where
  "sof_run n = replicate (4 * n) False @ replicate 3 True"

definition uart_idle :: uart where
  "uart_idle = Uart14bInit (\<lambda>_. 0)
     \<lparr>Uart_state = STATE_14B_UNSYNCD, Uart_shiftReg = 0, Uart_bitCnt = 0, Uart_byteCnt = 0,
      Uart_byteCntMax = 0, Uart_posCnt = 0, Uart_output = (\<lambda>_. 0)\<rparr>"

subsection \<open>The tag simulator\<close>

datatype sim_state = SIM_POWER_OFF | SIM_IDLE | SIM_READY | SIM_HALT | SIM_ACTIVE

text \<open>Modelled from the spec: the command codes of protocols.h are not among the sources. The
  specification's transition table gives \<open>05\<close> for REQB/WUPB, \<open>50\<close> for HLTB and \<open>1D\<close> for
  ATTRIB.\<close>

definition ISO14443B_REQB :: u8 where "ISO14443B_REQB = 0x05"
definition ISO14443B_HALT :: u8 where "ISO14443B_HALT = 0x50"
definition ISO14443B_ATTRIB :: u8 where "ISO14443B_ATTRIB = 0x1D"

text \<open>The two pre-encoded answers that \<open>TransmitFor14443b_AsTag\<close> can be handed.\<close>

datatype sim_answer = encodedATQB | encodedOK

text \<open>The dispatch on a received frame in the loop of \<open>SimulateIso14443bTag\<close>: the frame
  \<open>receivedCmd\<close> of \<open>len = length receivedCmd\<close> bytes and the current \<open>cardSTATE\<close> give the
  new state and the answers transmitted. A \<open>default\<close> label of the source covers
  \<open>SIM_POWER_OFF\<close>.\<close>

definition sim_dispatch :: "u8 list \<Rightarrow> sim_state \<Rightarrow> sim_state \<times> sim_answer list" where
  "sim_dispatch receivedCmd cardSTATE =
     (let len = length receivedCmd in
      if len = 5 \<and> receivedCmd ! 0 = ISO14443B_REQB \<and> receivedCmd ! 2 AND 0x08 \<noteq> 0
      then (case cardSTATE of
              SIM_IDLE \<Rightarrow> (SIM_READY, [encodedATQB])
            | SIM_READY \<Rightarrow> (SIM_READY, [encodedATQB])
            | SIM_HALT \<Rightarrow> (SIM_READY, [encodedATQB])
            | SIM_ACTIVE \<Rightarrow> (cardSTATE, [encodedATQB])
            | SIM_POWER_OFF \<Rightarrow> (cardSTATE, [encodedATQB]))
      else if len = 5 \<and> receivedCmd ! 0 = ISO14443B_REQB \<and> \<not> (receivedCmd ! 2 AND 0x08 \<noteq> 0)
      then (case cardSTATE of
              SIM_IDLE \<Rightarrow> (SIM_READY, [encodedATQB])
            | SIM_READY \<Rightarrow> (SIM_READY, [encodedATQB])
            | SIM_ACTIVE \<Rightarrow> (cardSTATE, [encodedATQB])
            | SIM_HALT \<Rightarrow> (cardSTATE, [])
            | SIM_POWER_OFF \<Rightarrow> (cardSTATE, []))
      else if len = 7 \<and> receivedCmd ! 0 = ISO14443B_HALT
      then (case cardSTATE of
              SIM_READY \<Rightarrow> (SIM_HALT, [encodedOK])
            | SIM_IDLE \<Rightarrow> (cardSTATE, [encodedOK])
            | SIM_ACTIVE \<Rightarrow> (cardSTATE, [encodedOK])
            | SIM_HALT \<Rightarrow> (cardSTATE, [])
            | SIM_POWER_OFF \<Rightarrow> (cardSTATE, []))
      else if len = 11 \<and> receivedCmd ! 0 = ISO14443B_ATTRIB
      then (case cardSTATE of
              SIM_READY \<Rightarrow> (SIM_ACTIVE, [encodedOK])
            | SIM_IDLE \<Rightarrow> (cardSTATE, [encodedOK])
            | SIM_ACTIVE \<Rightarrow> (cardSTATE, [encodedOK])
            | SIM_HALT \<Rightarrow> (cardSTATE, [])
            | SIM_POWER_OFF \<Rightarrow> (cardSTATE, []))
      else (cardSTATE, []))"

text \<open>One pass of the simulation loop that gets as far as a frame: the field detection
  (\<open>field\<close> is the outcome of \<open>vHf > MF_MINFIELDV\<close>), then the frame \<open>receivedCmd\<close> returned
  by \<open>GetIso14443bCommandFromReader\<close>. Without field the pass ends before any frame is
  awaited.\<close>

definition sim_pass :: "bool \<Rightarrow> u8 list \<Rightarrow> sim_state \<Rightarrow> sim_state \<times> sim_answer list" where
  "sim_pass field receivedCmd cardSTATE =
     (let st = (if field then (if cardSTATE = SIM_POWER_OFF then SIM_IDLE else cardSTATE)
                else SIM_POWER_OFF)
      in if st = SIM_POWER_OFF then (st, []) else sim_dispatch receivedCmd st)"

text \<open>The loop over the frames the reader sends while the field stays on, collecting the
  answers transmitted.\<close>

fun sim_run ::
  "u8 list list \<Rightarrow> sim_state \<Rightarrow> sim_answer list \<Rightarrow> sim_state \<times> sim_answer list" where
  "sim_run [] st tx = (st, tx)"
| "sim_run (c # cs) st tx =
     sim_run cs (fst (sim_pass True c st)) (tx @ snd (sim_pass True c st))"


subsection \<open>The reader-bit encoder\<close>

text \<open>The \<open>ToSend\<close> buffer: byte storage, the index \<open>max\<close> of the last byte and the count
  \<open>bit\<close> of bits used in it.\<close>

record tosend =
  ToSend_buf :: "nat \<Rightarrow> u8"
  ToSend_max :: nat
  ToSend_bit :: nat

text \<open>Modelled from the spec: \<open>tosend_reset\<close> and \<open>tosend_stuffbit\<close> (BigBuf.c) are not
  among the sources. The specification describes a bit-packed buffer with a last-byte index
  \<open>max\<close> and a residual bit count \<open>bit\<close> in [0,7], holding \<open>8 * max + bit\<close> bits; the
  transmitter below reads each byte from its most significant bit, which fixes the packing
  order. The byte storage is not bounded here.\<close>

definition tosend_reset :: "tosend \<Rightarrow> tosend" where
  "tosend_reset ts = ts\<lparr>ToSend_max := 0, ToSend_bit := 0\<rparr>"

definition tosend_stuffbit :: "bool \<Rightarrow> tosend \<Rightarrow> tosend" where
  "tosend_stuffbit b ts =
     (let m = ToSend_max ts; k = ToSend_bit ts;
          buf0 = (if k = 0 then (ToSend_buf ts)(m := 0) else ToSend_buf ts);
          buf1 = (if b then buf0(m := buf0 m OR push_bit (7 - k) 1) else buf0)
      in if k + 1 \<ge> 8
         then ts\<lparr>ToSend_buf := buf1, ToSend_max := m + 1, ToSend_bit := 0\<rparr>
         else ts\<lparr>ToSend_buf := buf1, ToSend_bit := k + 1\<rparr>)"

text \<open>The bits \<open>TransmitFor14443b_AsReader\<close> clocks out of \<open>ToSend\<close>: of each of the first
  \<open>max\<close> bytes all eight, then \<open>bit\<close> bits of the byte at \<open>max\<close>, always testing \<open>0x80\<close>
  and shifting left. (Every bit goes out as two equal modulation words, \<open>0x0000\<close> for a one
  and \<open>0xFFFF\<close> for a zero; the list keeps the bit.)\<close>

fun tx_bits :: "nat \<Rightarrow> u8 \<Rightarrow> bool list" where
  "tx_bits 0 d = []"
| "tx_bits (Suc n) d = (d AND 0x80 \<noteq> 0) # tx_bits n (push_bit 1 d)"

definition tosend_bits :: "tosend \<Rightarrow> bool list" where
  "tosend_bits ts =
     concat (map (\<lambda>c. tx_bits 8 (ToSend_buf ts c)) [0..<ToSend_max ts])
     @ tx_bits (ToSend_bit ts) (ToSend_buf ts (ToSend_max ts))"

text \<open>The loops \<open>for (i = 0; i < 10; i++) tosend_stuffbit(0)\<close> of the encoder.\<close>

fun stuff_zeros :: "nat \<Rightarrow> tosend \<Rightarrow> tosend" where
  "stuff_zeros 0 ts = ts"
| "stuff_zeros (Suc n) ts = stuff_zeros n (tosend_stuffbit False ts)"

text \<open>The body of the byte loop: start bit, the data bits \<open>(b >> k) & 1\<close> for \<open>k\<close> from 0
  to 7, stop bit.\<close>

definition code_char :: "u8 \<Rightarrow> tosend \<Rightarrow> tosend" where
  "code_char b ts =
     (let t0 = tosend_stuffbit False ts;
          t1 = tosend_stuffbit (b AND 1 \<noteq> 0) t0;
          t2 = tosend_stuffbit (drop_bit 1 b AND 1 \<noteq> 0) t1;
          t3 = tosend_stuffbit (drop_bit 2 b AND 1 \<noteq> 0) t2;
          t4 = tosend_stuffbit (drop_bit 3 b AND 1 \<noteq> 0) t3;
          t5 = tosend_stuffbit (drop_bit 4 b AND 1 \<noteq> 0) t4;
          t6 = tosend_stuffbit (drop_bit 5 b AND 1 \<noteq> 0) t5;
          t7 = tosend_stuffbit (drop_bit 6 b AND 1 \<noteq> 0) t6;
          t8 = tosend_stuffbit (drop_bit 7 b AND 1 \<noteq> 0) t7
      in tosend_stuffbit True t8)"

text \<open>The loop \<open>for (i = 0; i < len; i++)\<close> over \<open>cmd\<close>; \<open>len\<close> and \<open>i\<close> are C \<open>int\<close>s.
  A read \<open>cmd ! nat i\<close> is the source's \<open>cmd[i]\<close> as long as \<open>len\<close> does not exceed the
  number of bytes behind the pointer.\<close>

function code_chars :: "u8 list \<Rightarrow> int \<Rightarrow> int \<Rightarrow> tosend \<Rightarrow> tosend" where
  "code_chars cmd len i ts =
     (if i < len then code_chars cmd len (i + 1) (code_char (cmd ! nat i) ts) else ts)"
  by pat_completeness auto
termination
  by (relation "measure (\<lambda>(cmd, len, i, ts). nat (len - i))") auto

declare code_chars.simps [simp del]

definition CodeIso14443bAsReader :: "u8 list \<Rightarrow> int \<Rightarrow> bool \<Rightarrow> tosend \<Rightarrow> tosend" where
  "CodeIso14443bAsReader cmd len framing ts =
     (let t0 = tosend_reset ts;
          t1 = (if framing
                then tosend_stuffbit True (tosend_stuffbit True (stuff_zeros 10 t0))
                else t0);
          t2 = code_chars cmd len 0 t1
      in if framing then stuff_zeros 10 t2 else t2)"

text \<open>The frame layout in the words of the specification: a character is a start bit 0, the
  eight data bits from the least significant, and a stop bit 1; the start of frame is ten
  zeros and two ones, the end of frame ten zeros.\<close>

definition spec_char :: "u8 \<Rightarrow> bool list" where
  "spec_char b = False # map (bit b) [0..<8] @ [True]"

definition spec_frame :: "u8 list \<Rightarrow> bool list" where
  "spec_frame bytes =
     (replicate 10 False @ [True, True]) @ concat (map spec_char bytes) @ replicate 10 False"

definition tosend_empty :: tosend where
  "tosend_empty = \<lparr>ToSend_buf = (\<lambda>_. 0), ToSend_max = 0, ToSend_bit = 0\<rparr>"

subsection \<open>The tag-direction demodulator\<close>

datatype demod_state =
    DEMOD_UNSYNCD
  | DEMOD_PHASE_REF_TRAINING
  | WAIT_FOR_RISING_EDGE_OF_SOF
  | DEMOD_AWAITING_START_BIT
  | DEMOD_RECEIVING_DATA

text \<open>The value of each enumerator, for the comparison \<open>Demod.state < DEMOD_PHASE_REF_TRAINING\<close>.\<close>

fun demod_state_value :: "demod_state \<Rightarrow> int" where
  "demod_state_value DEMOD_UNSYNCD = 0"
| "demod_state_value DEMOD_PHASE_REF_TRAINING = 1"
| "demod_state_value WAIT_FOR_RISING_EDGE_OF_SOF = 2"
| "demod_state_value DEMOD_AWAITING_START_BIT = 3"
| "demod_state_value DEMOD_RECEIVING_DATA = 4"

text \<open>The \<open>Demod\<close> structure, each field under the name \<open>Demod_\<close>field. \<open>Demod_output\<close> is
  the memory behind the pointer \<open>Demod.output\<close>, addressed by byte offset: the caller's
  buffer occupies the offsets below \<open>max_len\<close>, and whatever lies behind it the offsets from
  \<open>max_len\<close> on.\<close>

record demod =
  Demod_state :: demod_state
  Demod_bitCount :: u16
  Demod_posCount :: int
  Demod_thisBit :: int
  Demod_shiftReg :: u16
  Demod_max_len :: u16
  Demod_output :: "nat \<Rightarrow> u8"
  Demod_len :: u16
  Demod_sumI :: int
  Demod_sumQ :: int

definition Demod14bReset :: "demod \<Rightarrow> demod" where
  "Demod14bReset d = d\<lparr>Demod_state := DEMOD_UNSYNCD, Demod_bitCount := 0, Demod_posCount := 0,
     Demod_thisBit := 0, Demod_shiftReg := 0, Demod_len := 0, Demod_sumI := 0, Demod_sumQ := 0\<rparr>"

definition Demod14bInit :: "(nat \<Rightarrow> u8) \<Rightarrow> u16 \<Rightarrow> demod \<Rightarrow> demod" where
  "Demod14bInit data max_len d = Demod14bReset (d\<lparr>Demod_output := data, Demod_max_len := max_len\<rparr>)"

text \<open>The macros of \<open>Handle14443bSamplesFromTag\<close>. \<open>AMPLITUDE\<close> halves a value that is not
  negative, where C and HOL divide alike.\<close>

definition SUBCARRIER_DETECT_THRESHOLD :: int where
  "SUBCARRIER_DETECT_THRESHOLD = 8"

definition AMPLITUDE :: "int \<Rightarrow> int \<Rightarrow> int" where
  "AMPLITUDE ci cq = max \<bar>ci\<bar> \<bar>cq\<bar> + min \<bar>ci\<bar> \<bar>cq\<bar> div 2"

definition MAKE_SOFT_DECISION :: "demod \<Rightarrow> int \<Rightarrow> int \<Rightarrow> int" where
  "MAKE_SOFT_DECISION d ci cq =
     (let v = (if Demod_sumI d > 0 then ci else - ci)
      in if Demod_sumQ d > 0 then v + cq else v - cq)"

text \<open>One call of \<open>Handle14443bSamplesFromTag\<close>, made twice per bit period with a
  correlation pair. The result pairs the return value with the updated \<open>Demod\<close>.\<close>

definition Handle14443bSamplesFromTag :: "int \<Rightarrow> int \<Rightarrow> demod \<Rightarrow> bool \<times> demod" where
  "Handle14443bSamplesFromTag ci cq d =
     (case Demod_state d of
        DEMOD_UNSYNCD \<Rightarrow>
          (if AMPLITUDE ci cq > SUBCARRIER_DETECT_THRESHOLD
           then (False, d\<lparr>Demod_state := DEMOD_PHASE_REF_TRAINING, Demod_sumI := ci,
                           Demod_sumQ := cq, Demod_posCount := 1\<rparr>)
           else (False, d))
      | DEMOD_PHASE_REF_TRAINING \<Rightarrow>
          (if AMPLITUDE ci cq > SUBCARRIER_DETECT_THRESHOLD
           then (if (\<bar>Demod_sumI d\<bar> > \<bar>Demod_sumQ d\<bar>
                       \<and> ((ci > 0 \<and> Demod_sumI d > 0) \<or> (ci < 0 \<and> Demod_sumI d < 0)))
                    \<or> (\<bar>Demod_sumI d\<bar> \<le> \<bar>Demod_sumQ d\<bar>
                       \<and> ((cq > 0 \<and> Demod_sumQ d > 0) \<or> (cq < 0 \<and> Demod_sumQ d < 0)))
                 then (let d1 = (if Demod_posCount d < 10
                                 then d\<lparr>Demod_sumI := Demod_sumI d + ci,
                                         Demod_sumQ := Demod_sumQ d + cq\<rparr>
                                 else d)
                       in (False, d1\<lparr>Demod_posCount := Demod_posCount d1 + 1\<rparr>))
                 else (if Demod_posCount d < 10
                       then (False, d\<lparr>Demod_state := DEMOD_UNSYNCD\<rparr>)
                       else (False, d\<lparr>Demod_posCount := 1,
                                       Demod_thisBit := MAKE_SOFT_DECISION d ci cq,
                                       Demod_shiftReg := 0,
                                       Demod_state := DEMOD_RECEIVING_DATA\<rparr>)))
           else (False, d\<lparr>Demod_state := DEMOD_UNSYNCD\<rparr>))
      | DEMOD_AWAITING_START_BIT \<Rightarrow>
          (let d1 = d\<lparr>Demod_posCount := Demod_posCount d + 1\<rparr>;
               v = MAKE_SOFT_DECISION d1 ci cq
           in if v > 0
              then (if Demod_posCount d1 > 3 * 2
                    then (if Demod_bitCount d1 = 0 \<and> Demod_len d1 = 0
                          then (True, d1)
                          else (False, d1\<lparr>Demod_state := DEMOD_UNSYNCD\<rparr>))
                    else (False, d1))
              else (False, d1\<lparr>Demod_posCount := 1, Demod_thisBit := v, Demod_shiftReg := 0,
                               Demod_state := DEMOD_RECEIVING_DATA\<rparr>))
      | WAIT_FOR_RISING_EDGE_OF_SOF \<Rightarrow>
          (let d1 = d\<lparr>Demod_posCount := Demod_posCount d + 1\<rparr>;
               v = MAKE_SOFT_DECISION d1 ci cq
           in if v > 0
              then (if Demod_posCount d1 < 9 * 2
                    then (False, d1\<lparr>Demod_state := DEMOD_UNSYNCD\<rparr>)
                    else (False, d1\<lparr>Demod_posCount := 0, Demod_bitCount := 0, Demod_len := 0,
                                     Demod_state := DEMOD_AWAITING_START_BIT\<rparr>))
              else (if Demod_posCount d1 > 12 * 2
                    then (False, d1\<lparr>Demod_state := DEMOD_UNSYNCD\<rparr>)
                    else (False, d1)))
      | DEMOD_RECEIVING_DATA \<Rightarrow>
          (let v = MAKE_SOFT_DECISION d ci cq
           in if Demod_posCount d = 0
              then (False, d\<lparr>Demod_thisBit := v, Demod_posCount := 1\<rparr>)
              else
                (let d1 = d\<lparr>Demod_thisBit := Demod_thisBit d + v\<rparr>;
                     r = drop_bit 1 (Demod_shiftReg d1);
                     d2 = d1\<lparr>Demod_shiftReg := (if Demod_thisBit d1 > 0 then r OR 0x200 else r)\<rparr>;
                     d3 = d2\<lparr>Demod_bitCount := Demod_bitCount d2 + 1\<rparr>
                 in if Demod_bitCount d3 = 10
                    then
                      (let s = Demod_shiftReg d3
                       in if s AND 0x200 \<noteq> 0 \<and> \<not> (s AND 0x001 \<noteq> 0)
                          then
                            (let d4 = d3\<lparr>Demod_output := (Demod_output d3)
                                          (unat (Demod_len d3) := ucast (drop_bit 1 s))\<rparr>;
                                 d5 = d4\<lparr>Demod_len := Demod_len d4 + 1, Demod_bitCount := 0,
                                         Demod_state := DEMOD_AWAITING_START_BIT\<rparr>
                             in (False, d5\<lparr>Demod_posCount := 0\<rparr>))
                          else if s = 0x000
                          then (if Demod_len d3 > 0
                                then (True, d3)
                                else (False, d3\<lparr>Demod_posCount := 10 * 2, Demod_bitCount := 0,
                                                Demod_len := 0,
                                                Demod_state := WAIT_FOR_RISING_EDGE_OF_SOF\<rparr>))
                          else
                            (let d4 = (if AMPLITUDE ci cq < SUBCARRIER_DETECT_THRESHOLD
                                       then d3\<lparr>Demod_state := DEMOD_UNSYNCD\<rparr> else d3)
                             in if AMPLITUDE ci cq < SUBCARRIER_DETECT_THRESHOLD
                                   \<and> Demod_len d4 > 0
                                then (True, d4)
                                else (False, d4\<lparr>Demod_bitCount := 0, Demod_len := 0,
                                                Demod_state := WAIT_FOR_RISING_EDGE_OF_SOF\<rparr>)))
                    else (False, d3\<lparr>Demod_posCount := 0\<rparr>))))"

text \<open>The demodulator fed a sequence of correlation pairs, up to the first call that
  returns true (the caller stops there) or the end of the sequence.\<close>

fun demod_feed :: "(int \<times> int) list \<Rightarrow> demod \<Rightarrow> bool \<times> demod" where
  "demod_feed [] d = (False, d)"
| "demod_feed ((ci, cq) # xs) d =
     (if fst (Handle14443bSamplesFromTag ci cq d)
      then (True, snd (Handle14443bSamplesFromTag ci cq d))
      else demod_feed xs (snd (Handle14443bSamplesFromTag ci cq d)))"

text \<open>A tag answer as a sample sequence, two samples per bit period: a one is the reference
  phase \<open>(20, 0)\<close>, a zero the opposite phase \<open>(-20, 0)\<close>. The answer opens with the burst
  of ones (TR1) and the start of frame of ten zeros and two ones; every byte is a start bit,
  eight data bits from the least significant, and a stop bit; ten zeros close it.\<close>

definition tag_bit :: "bool \<Rightarrow> (int \<times> int) list" where
  "tag_bit b = (if b then [(20, 0), (20, 0)] else [(-20, 0), (-20, 0)])"

definition tag_char :: "u8 \<Rightarrow> (int \<times> int) list" where
  "tag_char b = concat (map tag_bit (False # map (bit b) [0..<8] @ [True]))"

definition tag_answer :: "u8 list \<Rightarrow> (int \<times> int) list" where
  "tag_answer bytes =
     concat (map tag_bit (replicate 10 True @ replicate 10 False @ [True, True]))
     @ concat (map tag_char bytes)
     @ concat (map tag_bit (replicate 10 False))"

definition demod_zero :: demod where
  "demod_zero = \<lparr>Demod_state = DEMOD_UNSYNCD, Demod_bitCount = 0, Demod_posCount = 0,
     Demod_thisBit = 0, Demod_shiftReg = 0, Demod_max_len = 0, Demod_output = (\<lambda>_. 0),
     Demod_len = 0, Demod_sumI = 0, Demod_sumQ = 0\<rparr>"

subsection \<open>Receiving a tag answer\<close>

text \<open>Modelled from the spec: the status codes of pm3_cmd.h are not among the sources. The
  specification lists one kind per condition; \<open>PM3_SUCCESS\<close> is the zero that \<open>ret\<close> starts
  with, every other kind is negative.\<close>

datatype pm3_status =
    PM3_SUCCESS | PM3_ETIMEOUT | PM3_EOVFLOW | PM3_EMALLOC | PM3_ECARDEXCHANGE | PM3_ECRC

text \<open>Modelled from the spec: \<open>GetCountSspClkDelta\<close> (ticks.c) is not among the sources. The
  specification asks for the 32-bit unsigned modular difference between the tick counter,
  here the reading \<open>now\<close>, and the start.\<close>

definition GetCountSspClkDelta :: "u32 \<Rightarrow> u32 \<Rightarrow> u32" where
  "GetCountSspClkDelta start now = now - start"

definition DELAY_TAG_TO_ARM :: u32 where
  "DELAY_TAG_TO_ARM = 32"

text \<open>What the hardware presents in one pass of the receive loop that finds a sample
  (\<open>behindBy \<noteq> 0\<close>): the 16-bit DMA word with I in the high and Q in the low byte, the tick
  counter as \<open>GetCountSspClk\<close> reads it for \<open>dma_start_time\<close> and as
  \<open>GetCountSspClkDelta\<close> reads it later in the pass, and whether the ring has just wrapped
  with the transfer ended and the button pressed.\<close>

record sample_event =
  ev_word :: u16
  ev_start_clk :: u32
  ev_clk :: u32
  ev_stop :: bool

text \<open>The local variables of \<open>Get14443bAnswerFromTag\<close> that live across passes, with the
  \<open>Demod\<close>.\<close>

record rx_loop =
  rl_samples :: int
  rl_dma_start_time :: u32
  rl_eof_time :: u32
  rl_ret :: pm3_status
  rl_demod :: demod

text \<open>The pair \<open>int8_t ci = *upTo >> 8\<close>, \<open>int8_t cq = *upTo\<close> of a pass, and its
  \<open>dma_start_time\<close>, which the pass with the first sample sets.\<close>

definition sample_ci :: "sample_event \<Rightarrow> int" where
  "sample_ci e = sint (ucast (drop_bit 8 (ev_word e)) :: u8)"

definition sample_cq :: "sample_event \<Rightarrow> int" where
  "sample_cq e = sint (ucast (ev_word e) :: u8)"

definition pass_start_time :: "sample_event \<Rightarrow> rx_loop \<Rightarrow> u32" where
  "pass_start_time e l =
     (if rl_samples l + 1 = 1 then ev_start_clk e AND 0xfffffff0 else rl_dma_start_time l)"

text \<open>One pass of the loop \<open>for (;;)\<close>; the first component tells whether the pass ends in
  \<open>break\<close>.\<close>

definition answer_pass :: "u32 \<Rightarrow> sample_event \<Rightarrow> rx_loop \<Rightarrow> bool \<times> rx_loop" where
  "answer_pass timeout e l =
     (let samples = rl_samples l + 1;
          start = pass_start_time e l;
          ci = sample_ci e;
          cq = sample_cq e;
          l1 = l\<lparr>rl_samples := samples, rl_dma_start_time := start\<rparr>
      in if ev_stop e then (True, l1)
         else
           (let h = Handle14443bSamplesFromTag ci cq (rl_demod l1);
                d' = snd h
            in if fst h
               then (True, l1\<lparr>rl_demod := d',
                              rl_eof_time :=
                                GetCountSspClkDelta start (ev_clk e) - DELAY_TAG_TO_ARM,
                              rl_ret := (if Demod_len d' > Demod_max_len d'
                                         then PM3_EOVFLOW else rl_ret l1)\<rparr>)
               else if GetCountSspClkDelta start (ev_clk e) > timeout
                       \<and> demod_state_value (Demod_state d')
                           < demod_state_value DEMOD_PHASE_REF_TRAINING
               then (True, l1\<lparr>rl_demod := d', rl_ret := PM3_ETIMEOUT\<rparr>)
               else (False, l1\<lparr>rl_demod := d'\<rparr>)))"

text \<open>The loop over the passes. It ends only by \<open>break\<close>: while the hardware has presented
  no sample that ends it, the function has not returned, which is \<open>None\<close>.\<close>

fun answer_loop :: "u32 \<Rightarrow> sample_event list \<Rightarrow> rx_loop \<Rightarrow> rx_loop option" where
  "answer_loop timeout [] l = None"
| "answer_loop timeout (e # es) l =
     (if fst (answer_pass timeout e l)
      then Some (snd (answer_pass timeout e l))
      else answer_loop timeout es (snd (answer_pass timeout e l)))"

record answer =
  an_status :: pm3_status
  an_demod :: demod
  an_eof_time :: u32
  an_retlen :: "u16 option"

text \<open>\<open>Get14443bAnswerFromTag\<close>: \<open>dma_ok\<close> and \<open>ssc_ok\<close> are the outcomes of \<open>get_dma16\<close>
  and \<open>FpgaSetupSscDma\<close>, \<open>eof_time\<close> the value behind the pointer at entry, \<open>d\<close> the
  \<open>Demod\<close> at entry. \<open>an_retlen\<close> is the value stored through \<open>retlen\<close>, if any.\<close>

definition Get14443bAnswerFromTag ::
  "(nat \<Rightarrow> u8) \<Rightarrow> u16 \<Rightarrow> u32 \<Rightarrow> u32 \<Rightarrow> bool \<Rightarrow> bool \<Rightarrow> sample_event list \<Rightarrow> demod
     \<Rightarrow> answer option" where
  "Get14443bAnswerFromTag response max_len timeout eof_time dma_ok ssc_ok events d =
     (let d0 = Demod14bInit response max_len d
      in if \<not> dma_ok
         then Some \<lparr>an_status = PM3_EMALLOC, an_demod = d0, an_eof_time = eof_time,
                     an_retlen = None\<rparr>
         else if \<not> ssc_ok
         then Some \<lparr>an_status = PM3_EMALLOC, an_demod = d0, an_eof_time = eof_time,
                     an_retlen = None\<rparr>
         else
           (case answer_loop timeout events
                   \<lparr>rl_samples = 0, rl_dma_start_time = 0, rl_eof_time = eof_time,
                    rl_ret = PM3_SUCCESS, rl_demod = d0\<rparr> of
              None \<Rightarrow> None
            | Some l \<Rightarrow>
                (if rl_ret l \<noteq> PM3_SUCCESS
                 then Some \<lparr>an_status = rl_ret l, an_demod = rl_demod l,
                             an_eof_time = rl_eof_time l, an_retlen = None\<rparr>
                 else Some \<lparr>an_status = PM3_SUCCESS, an_demod = rl_demod l,
                             an_eof_time = rl_eof_time l,
                             an_retlen = Some (Demod_len (rl_demod l))\<rparr>)))"

text \<open>A DMA word from a correlation pair, and the events of a sample sequence that arrives
  at one sample per 16 ticks from tick \<open>t\<close> on.\<close>

definition iq_word :: "int \<times> int \<Rightarrow> u16" where
  "iq_word p = push_bit 8 (word_of_int (fst p) AND 0xFF) OR (word_of_int (snd p) AND 0xFF)"

fun iq_events :: "u32 \<Rightarrow> (int \<times> int) list \<Rightarrow> sample_event list" where
  "iq_events t [] = []"
| "iq_events t (p # ps) =
     \<lparr>ev_word = iq_word p, ev_start_clk = t, ev_clk = t + 2, ev_stop = False\<rparr>
       # iq_events (t + 16) ps"

subsection \<open>CRC-B\<close>

text \<open>Modelled from the spec: \<open>AddCrc14B\<close> and \<open>check_crc\<close> (crc16.c) are not among the
  sources. The specification gives the CRC-B of ISO 14443-3: polynomial
  \<open>x^16 + x^12 + x^5 + 1\<close> taken bit by bit from the least significant end, initial value
  \<open>0xFFFF\<close>, output complemented, appended low byte first; the check accepts a frame of at
  least three bytes whose last two bytes are the CRC of the bytes before them.\<close>

definition crc_b_bit :: "u16 \<Rightarrow> u16" where
  "crc_b_bit c = (if c AND 1 \<noteq> 0 then drop_bit 1 c XOR 0x8408 else drop_bit 1 c)"

definition crc_b_byte :: "u16 \<Rightarrow> u8 \<Rightarrow> u16" where
  "crc_b_byte c b = (crc_b_bit ^^ 8) (c XOR ucast b)"

definition crc_b :: "u8 list \<Rightarrow> u16" where
  "crc_b bytes = NOT (foldl crc_b_byte 0xFFFF bytes)"

definition AddCrc14B :: "(nat \<Rightarrow> u8) \<Rightarrow> nat \<Rightarrow> (nat \<Rightarrow> u8)" where
  "AddCrc14B data n =
     (let c = crc_b (map data [0..<n])
      in data(n := ucast c, n + 1 := ucast (drop_bit 8 c)))"

definition check_crc_14443_B :: "(nat \<Rightarrow> u8) \<Rightarrow> nat \<Rightarrow> bool" where
  "check_crc_14443_B data n =
     (n \<ge> 3 \<and> (let c = crc_b (map data [0..<n - 2])
                in data (n - 2) = ucast c \<and> data (n - 1) = ucast (drop_bit 8 c)))"

subsection \<open>The layer-4 exchange\<close>

text \<open>What the radio side does during \<open>iso14443b_apdu\<close> is recorded as a trace: the frames
  handed to \<open>CodeAndTransmit14443bAsReader\<close> and the timeout passed to each call of
  \<open>Get14443bAnswerFromTag\<close>. The tick bookkeeping of \<open>start_time\<close> and \<open>eof_time\<close> has no
  part in what the function stores or returns and is left out.\<close>

datatype io_event = Transmit "u8 list" | Receive u32

text \<open>The tag's side, one entry per call of \<open>Get14443bAnswerFromTag\<close>: a frame (the bytes the
  demodulator stored from the start of the buffer, their count being the length reported), or
  no frame. When the script is used up the tag stays silent. A frame longer than the
  buffer is what the receive reports as \<open>PM3_EOVFLOW\<close>.\<close>

datatype rx_outcome = RxTimeout | RxNoDma | RxFrame "u8 list"

definition store_frame :: "u8 list \<Rightarrow> (nat \<Rightarrow> u8) \<Rightarrow> (nat \<Rightarrow> u8)" where
  "store_frame bs rx = (\<lambda>i. if i < length bs then bs ! i else rx i)"

text \<open>A call \<open>Get14443bAnswerFromTag(rxdata, rxmaxlen, timeout, &eof_time, &len)\<close> seen from
  the caller: status, buffer and \<open>len\<close> afterwards.\<close>

fun receive_answer ::
  "u16 \<Rightarrow> rx_outcome \<Rightarrow> (nat \<Rightarrow> u8) \<Rightarrow> u16 \<Rightarrow> pm3_status \<times> (nat \<Rightarrow> u8) \<times> u16" where
  "receive_answer rxmaxlen RxTimeout rx len = (PM3_ETIMEOUT, rx, len)"
| "receive_answer rxmaxlen RxNoDma rx len = (PM3_EMALLOC, rx, len)"
| "receive_answer rxmaxlen (RxFrame bs) rx len =
     (if (word_of_nat (length bs) :: u16) > rxmaxlen
      then (PM3_EOVFLOW, store_frame bs rx, len)
      else (PM3_SUCCESS, store_frame bs rx, word_of_nat (length bs)))"

text \<open>How the S(WTX) loop is left: by \<open>return PM3_ECARDEXCHANGE\<close> from inside, or at its
  condition with a response of \<open>len\<close> bytes in the buffer.\<close>

datatype wtx_exit =
    WtxFailed session "nat \<Rightarrow> u8" "io_event list"
  | WtxDone u16 "nat \<Rightarrow> u8" session "rx_outcome list" "io_event list"

text \<open>The loop \<open>while (len && ((data_bytes[0] & 0xF2) == 0xF2))\<close>. \<open>None\<close> stands for a pass
  the C standard leaves undefined: a shift \<open>32 << fwt_temp\<close> out of range, or
  \<open>AddCrc14B(data_bytes, len - 2)\<close> with \<open>len\<close> below 2, where the length wraps around.\<close>

fun apdu_wtx_loop ::
  "u16 \<Rightarrow> rx_outcome list \<Rightarrow> (nat \<Rightarrow> u8) \<Rightarrow> u16 \<Rightarrow> session \<Rightarrow> io_event list
     \<Rightarrow> wtx_exit option" where
  "apdu_wtx_loop rxmaxlen env rx len s tr =
     (if len \<noteq> 0 \<and> rx 0 AND 0xF2 = 0xF2
      then
        (let save_iso14b_timeout_spp = s_iso14b_timeout s;
             wtxm = rx 1 AND 0x3F;
             fwt_temp = unat (s_iso14b_fwt s) * unat wtxm
         in case shl_32 fwt_temp of
              None \<Rightarrow> None
            | Some etu \<Rightarrow>
                (let s1 = iso14b_set_timeout etu s;
                     rx1 = rx(1 := wtxm)
                 in if unat len < 2 then None
                    else
                      (let rx2 = AddCrc14B rx1 (unat len - 2);
                           tr1 = tr @ [Transmit (map rx2 [0..<unat len]),
                                       Receive (s_iso14b_timeout s1)]
                       in case env of
                            [] \<Rightarrow> Some (WtxFailed s1 rx2 tr1)
                          | x # env' \<Rightarrow>
                              (case receive_answer rxmaxlen x rx2 len of
                                 (st, rx3, len3) \<Rightarrow>
                                   if st \<noteq> PM3_SUCCESS
                                   then Some (WtxFailed s1 rx3 tr1)
                                   else apdu_wtx_loop rxmaxlen env' rx3 len3
                                          (s1\<lparr>s_iso14b_timeout := save_iso14b_timeout_spp\<rparr>)
                                          tr1))))
      else Some (WtxDone len rx s env tr))"

declare apdu_wtx_loop.simps [simp del]

record apdu_result =
  ar_status :: pm3_status
  ar_session :: session
  ar_rxdata :: "nat \<Rightarrow> u8"
  ar_response_byte :: "u8 option"
  ar_responselen :: "u16 option"
  ar_trace :: "io_event list"

text \<open>The frame \<open>real_cmd\<close> with its CRC: an I-block around a message, an R(ACK) block for
  an empty one.\<close>

definition apdu_real_cmd :: "u8 list \<Rightarrow> bool \<Rightarrow> session \<Rightarrow> u8 list" where
  "apdu_real_cmd msg send_chaining s =
     (let pcb = (if msg \<noteq> []
                 then (if send_chaining then 0x02 OR 0x10 else 0x02) OR s_iso14b_pcb_blocknum s
                 else 0xA2 OR s_iso14b_pcb_blocknum s);
          n = length msg + 1;
          mem = AddCrc14B (\<lambda>i. if i < n then (pcb # msg) ! i else 0) n
      in map mem [0..<length msg + 3])"

text \<open>The rule on the block number, lines 1688 to 1694.\<close>

definition apdu_blocknum_rule :: "u16 \<Rightarrow> (nat \<Rightarrow> u8) \<Rightarrow> session \<Rightarrow> session" where
  "apdu_blocknum_rule len data_bytes s =
     (if len \<ge> 3
         \<and> (data_bytes 0 AND 0xC0 = 0 \<or> data_bytes 0 AND 0xD0 = 0x80)
         \<and> data_bytes 0 AND 0x01 = s_iso14b_pcb_blocknum s
      then s\<lparr>s_iso14b_pcb_blocknum := s_iso14b_pcb_blocknum s XOR 1\<rparr>
      else s)"

text \<open>\<open>iso14443b_apdu\<close>. \<open>rxdata\<close> is the memory behind the pointer of that name, \<open>env\<close> the
  tag's side, \<open>s\<close> the session at entry. The result holds the return value, the session and
  buffer at return, the values stored through \<open>response_byte\<close> and \<open>responselen\<close> (both
  taken to be given), and the trace.\<close>

definition iso14443b_apdu ::
  "u8 list \<Rightarrow> bool \<Rightarrow> (nat \<Rightarrow> u8) \<Rightarrow> u16 \<Rightarrow> rx_outcome list \<Rightarrow> session
     \<Rightarrow> apdu_result option" where
  "iso14443b_apdu msg send_chaining rxdata rxmaxlen env s =
     (let tr0 = [Transmit (apdu_real_cmd msg send_chaining s), Receive (s_iso14b_timeout s)];
          (status, rx1, len1) =
             (case env of [] \<Rightarrow> (PM3_ETIMEOUT, rxdata, 0)
              | x # _ \<Rightarrow> receive_answer rxmaxlen x rxdata 0)
      in if status \<noteq> PM3_SUCCESS
         then Some \<lparr>ar_status = status, ar_session = s, ar_rxdata = rx1,
                     ar_response_byte = None, ar_responselen = None, ar_trace = tr0\<rparr>
         else if len1 \<noteq> 0
         then
           (case apdu_wtx_loop rxmaxlen (tl env) rx1 len1 s tr0 of
              None \<Rightarrow> None
            | Some (WtxFailed s' rx' tr') \<Rightarrow>
                Some \<lparr>ar_status = PM3_ECARDEXCHANGE, ar_session = s', ar_rxdata = rx',
                       ar_response_byte = None, ar_responselen = None, ar_trace = tr'\<rparr>
            | Some (WtxDone len data_bytes s' env' tr') \<Rightarrow>
                (let s2 = apdu_blocknum_rule len data_bytes s';
                     response_byte = data_bytes 0
                 in if len \<ge> 3 \<and> \<not> check_crc_14443_B data_bytes (unat len)
                    then Some \<lparr>ar_status = PM3_ECRC, ar_session = s2, ar_rxdata = data_bytes,
                                ar_response_byte = Some response_byte, ar_responselen = None,
                                ar_trace = tr'\<rparr>
                    else
                      (let len' = (if len \<noteq> 0 then len - 1 else len);
                           cut = (if len \<noteq> 0
                                  then (\<lambda>i. if i < unat len' then data_bytes (i + 1)
                                             else data_bytes i)
                                  else data_bytes)
                       in Some \<lparr>ar_status = PM3_SUCCESS, ar_session = s2, ar_rxdata = cut,
                                 ar_response_byte = Some response_byte,
                                 ar_responselen = Some len', ar_trace = tr'\<rparr>)))
         else Some \<lparr>ar_status = PM3_SUCCESS, ar_session = s, ar_rxdata = rx1,
                     ar_response_byte = None, ar_responselen = Some len1, ar_trace = tr0\<rparr>)"

text \<open>The response on which the S(WTX) loop of a call ended, if the call came that far: its
  length and the buffer that holds it.\<close>

definition apdu_final_response ::
  "u8 list \<Rightarrow> bool \<Rightarrow> (nat \<Rightarrow> u8) \<Rightarrow> u16 \<Rightarrow> rx_outcome list \<Rightarrow> session
     \<Rightarrow> (u16 \<times> (nat \<Rightarrow> u8)) option" where
  "apdu_final_response msg send_chaining rxdata rxmaxlen env s =
     (case env of
        [] \<Rightarrow> None
      | x # env' \<Rightarrow>
          (case receive_answer rxmaxlen x rxdata 0 of
             (status, rx1, len1) \<Rightarrow>
               if status = PM3_SUCCESS \<and> len1 \<noteq> 0
               then (case apdu_wtx_loop rxmaxlen env' rx1 len1 s
                            [Transmit (apdu_real_cmd msg send_chaining s),
                             Receive (s_iso14b_timeout s)] of
                       Some (WtxDone len data_bytes s' e' tr') \<Rightarrow> Some (len, data_bytes)
                     | _ \<Rightarrow> None)
               else None))"

text \<open>A frame with its CRC-B appended, for the tag's answers.\<close>

definition with_crc :: "u8 list \<Rightarrow> u8 list" where
  "with_crc bytes = bytes @ [ucast (crc_b bytes), ucast (drop_bit 8 (crc_b bytes))]"

text \<open>A receive into a buffer of three bytes, as for the answer to ATTRIB
  (\<open>r_attrib[3]\<close>), while the tag answers with the four bytes \<open>00 78 F0 55\<close>: the
  demodulator after the first 123 samples, which end with the first half of the stop bit of
  the fourth byte.\<close>

definition demod_buffer_full :: demod where
  "demod_buffer_full =
     snd (demod_feed (take 123 (tag_answer [0x00, 0x78, 0xF0, 0x55]))
            (Demod14bInit (\<lambda>_. 0) 3 demod_zero))"

text \<open>The first pass of a receive with a timeout of 10 ticks: a sample of amplitude 20 arrives
  when the tick counter, 0 at the start, reads 1000.\<close>

definition late_first_sample :: sample_event where
  "late_first_sample =
     \<lparr>ev_word = iq_word (20, 0), ev_start_clk = 0, ev_clk = 1000, ev_stop = False\<rparr>"

definition rx_loop_start :: rx_loop where
  "rx_loop_start =
     \<lparr>rl_samples = 0, rl_dma_start_time = 0, rl_eof_time = 0, rl_ret = PM3_SUCCESS,
      rl_demod = Demod14bInit (\<lambda>_. 0) 8 demod_zero\<rparr>"

text \<open>A session after activation of a card with FWI 2: 128 ETU, 4096 ticks.\<close>

definition session_fwi2 :: session where
  "session_fwi2 = \<lparr>s_iso14b_pcb_blocknum = 0, s_iso14b_fwt = 2, s_iso14b_timeout = 4096\<rparr>"

definition select_apdu :: "u8 list" where
  "select_apdu = [0x00, 0xA4, 0x00, 0x00]"

text \<open>The session with which the S(WTX) loop is left.\<close>

fun wtx_session :: "wtx_exit \<Rightarrow> session" where
  "wtx_session (WtxFailed s rx tr) = s"
| "wtx_session (WtxDone len rx s env tr) = s"

text \<open>The same pass with a sample of no amplitude.\<close>

definition late_quiet_sample :: sample_event where
  "late_quiet_sample =
     \<lparr>ev_word = iq_word (0, 0), ev_start_clk = 0, ev_clk = 1000, ev_stop = False\<rparr>"

text \<open>The state in which \<open>tosend_stuffbit\<close> keeps the buffer: fewer than eight bits in the
  last byte, and the bits of that byte not yet written clear.\<close>

definition tosend_inv :: "tosend \<Rightarrow> bool" where
  "tosend_inv ts \<longleftrightarrow>
     ToSend_bit ts < 8
     \<and> (ToSend_bit ts > 0 \<longrightarrow>
          (\<forall>j. j < 8 - ToSend_bit ts \<longrightarrow> \<not> bit (ToSend_buf ts (ToSend_max ts)) j))"

text \<open>The last byte of the buffer after \<open>tosend_stuffbit\<close> has put the bit \<open>b\<close> at position
  \<open>k\<close> into the byte \<open>x\<close>.\<close>

definition stuffed :: "bool \<Rightarrow> nat \<Rightarrow> u8 \<Rightarrow> u8" where
  "stuffed b k x =
     (let x0 = (if k = 0 then 0 else x) in if b then x0 OR push_bit (7 - k) 1 else x0)"

section \<open>Verified properties\<close>

subsection \<open>Timing and frame size\<close>

lemma fwi_enum:
  fixes fwi :: u8
  assumes "fwi \<le> 14"
  shows "fwi \<in> {0, 1, 2, 3, 4, 5, 6, 7, 8, 9, 10, 11, 12, 13, 14}"
proof -
  from assms have "unat fwi \<le> 14"
    by (simp add: word_le_nat_alt)
  then have "unat fwi \<in> {0, 1, 2, 3, 4, 5, 6, 7, 8, 9, 10, 11, 12, 13, 14}"
    by (simp, arith)
  then have "word_of_nat (unat fwi)
      \<in> (word_of_nat ` {0, 1, 2, 3, 4, 5, 6, 7, 8, 9, 10, 11, 12, 13, 14} :: u8 set)"
    by blast
  then show ?thesis by simp
qed

text \<open>
  Claim C5. For every FWI from 0 to 14, \<open>iso14b_set_fwt\<close> returns with the FWI stored and, in
  the same call, the timeout set to the smaller of \<open>32 * 2 ^ fwi\<close> ETU in SSP ticks (32 ticks
  per ETU) and \<open>MAX_14B_TIMEOUT\<close>; nothing else of the session changes.
\<close>

theorem iso14b_set_fwt_timeout:
  assumes "fwi \<le> 14"
  shows "iso14b_set_fwt fwi s =
           Some (s\<lparr>s_iso14b_fwt := fwi,
                   s_iso14b_timeout :=
                     word_of_nat (min (32 * 2 ^ unat fwi * 32) (unat MAX_14B_TIMEOUT))\<rparr>)"
  using fwi_enum [OF assms]
  by (auto simp: iso14b_set_fwt_def shl_32_def iso14b_set_timeout_def HF14_ETU_TO_SSP_def
        MAX_14B_TIMEOUT_def Let_def)

text \<open>At FWI 14 the conversion gives 16777216 ticks, which is clamped; at FWI 4 it gives
  16384 ticks, which is not.\<close>

theorem iso14b_set_fwt_timeout_witness:
  "(14 :: u8) \<le> 14 \<and> (4 :: u8) \<le> 14
   \<and> iso14b_set_fwt 14 session_init
       = Some (session_init\<lparr>s_iso14b_fwt := 14, s_iso14b_timeout := MAX_14B_TIMEOUT\<rparr>)
   \<and> iso14b_set_fwt 4 session_init
       = Some (session_init\<lparr>s_iso14b_fwt := 4, s_iso14b_timeout := 16384\<rparr>)"
  using iso14b_set_fwt_timeout [of 14 session_init] iso14b_set_fwt_timeout [of 4 session_init]
  by (simp add: MAX_14B_TIMEOUT_def)

text \<open>
  Claim C6, as stated: after \<open>iso14b_set_maxframesize\<close> the stored maximum lies in [1,256]
  for every argument. It fails for the argument 0, which is stored as it is.
\<close>

theorem iso14b_set_maxframesize_zero_counterexample:
  "\<not> (1 \<le> Uart_byteCntMax (iso14b_set_maxframesize 0 uart_idle)
      \<and> Uart_byteCntMax (iso14b_set_maxframesize 0 uart_idle) \<le> 256)"
  by (simp add: iso14b_set_maxframesize_def)

text \<open>
  Claim C6, amended. For every argument the stored maximum is the argument itself when that
  is at most 256 and \<open>MAX_FRAME_SIZE\<close> otherwise, so it lies in [0,256], and it is 0 only for
  the argument 0.
\<close>

theorem iso14b_set_maxframesize_range:
  "Uart_byteCntMax (iso14b_set_maxframesize sz u)
     = (if sz > 256 then MAX_FRAME_SIZE else uint sz)
   \<and> 0 \<le> Uart_byteCntMax (iso14b_set_maxframesize sz u)
   \<and> Uart_byteCntMax (iso14b_set_maxframesize sz u) \<le> 256
   \<and> ((Uart_byteCntMax (iso14b_set_maxframesize sz u) = 0) = (sz = 0))"
proof -
  have le: "\<not> sz > 256 \<Longrightarrow> uint sz \<le> 256"
    by (simp add: word_less_def not_less)
  have z: "(uint sz = 0) = (sz = 0)"
    by (simp add: uint_0_iff)
  show ?thesis
    using le z by (auto simp: iso14b_set_maxframesize_def MAX_FRAME_SIZE_def Let_def)
qed

theorem iso14b_set_maxframesize_range_witness:
  "Uart_byteCntMax (iso14b_set_maxframesize 300 uart_idle) = 256
   \<and> Uart_byteCntMax (iso14b_set_maxframesize 32 uart_idle) = 32"
  using iso14b_set_maxframesize_range [of 300 uart_idle]
        iso14b_set_maxframesize_range [of 32 uart_idle]
  by (simp add: MAX_FRAME_SIZE_def)

subsection \<open>The reader-direction UART\<close>

text \<open>
  Claim C8, as stated: after a falling edge from \<open>UNSYNCD\<close>, every run of at least ten zero
  bit periods followed by a one brings the UART to \<open>AWAITING_START_BIT\<close>. It fails for a
  run of 13: the UART gives up at the thirteenth mid-bit zero, and never is in
  \<open>AWAITING_START_BIT\<close>.
\<close>

theorem uart_sof_13_zeros_counterexample:
  "STATE_14B_AWAITING_START_BIT \<notin> set (map Uart_state (uart_trace (sof_run 13) uart_idle))"
  by code_simp

text \<open>
  Claim C8, amended. Fed one bit per quarter-ETU sample from \<open>UNSYNCD\<close>: a run of 9 zero bit
  periods followed by a one up to its mid-bit sample never brings the UART to
  \<open>AWAITING_START_BIT\<close> and leaves it in \<open>UNSYNCD\<close>; a run of 10 or of 11 zero bit periods
  followed by a one leaves it in \<open>AWAITING_START_BIT\<close>.
\<close>

theorem uart_sof_tolerance:
  assumes "Uart_state u = STATE_14B_UNSYNCD"
  shows "STATE_14B_AWAITING_START_BIT \<notin> set (map Uart_state (uart_trace (sof_run 9) u))
       \<and> Uart_state (uart_feed (sof_run 9) u) = STATE_14B_UNSYNCD
       \<and> Uart_state (uart_feed (sof_run 10) u) = STATE_14B_AWAITING_START_BIT
       \<and> Uart_state (uart_feed (sof_run 11) u) = STATE_14B_AWAITING_START_BIT"
  using assms
  by (cases u)
     (simp add: sof_run_def eval_nat_numeral Handle14443bSampleFromReader_def Let_def)

theorem uart_sof_tolerance_witness:
  "Uart_state uart_idle = STATE_14B_UNSYNCD
   \<and> STATE_14B_AWAITING_START_BIT \<notin> set (map Uart_state (uart_trace (sof_run 9) uart_idle))
   \<and> Uart_state (uart_feed (sof_run 9) uart_idle) = STATE_14B_UNSYNCD
   \<and> Uart_state (uart_feed (sof_run 10) uart_idle) = STATE_14B_AWAITING_START_BIT
   \<and> Uart_state (uart_feed (sof_run 11) uart_idle) = STATE_14B_AWAITING_START_BIT"
proof -
  have i: "Uart_state uart_idle = STATE_14B_UNSYNCD"
    by (simp add: uart_idle_def Uart14bInit_def Uart14bReset_def)
  from uart_sof_tolerance [OF i] i show ?thesis by simp
qed

subsection \<open>The tag simulator\<close>

text \<open>
  Claim C9. In the simulator's dispatch: a frame of 5 bytes with command byte \<open>05\<close> and bit
  \<open>08\<close> of the third byte set (WUPB), received in \<open>IDLE\<close>, \<open>READY\<close> or \<open>HALT\<close>, has the
  ATQB transmitted and leads to \<open>READY\<close>; a frame of 7 bytes with command byte \<open>50\<close> (HLTB),
  received in \<open>READY\<close>, has the OK answer transmitted and leads to \<open>HALT\<close>; a frame of 5
  bytes with command byte \<open>05\<close> and that bit clear (REQB), received in \<open>HALT\<close>, has nothing
  transmitted and leaves the state as it is.
\<close>

theorem sim_wupb_hltb_reqb:
  "(length cmd = 5 \<and> cmd ! 0 = 0x05 \<and> cmd ! 2 AND 0x08 \<noteq> 0
      \<and> st \<in> {SIM_IDLE, SIM_READY, SIM_HALT}
      \<longrightarrow> sim_dispatch cmd st = (SIM_READY, [encodedATQB]))
   \<and> (length cmd = 7 \<and> cmd ! 0 = 0x50
      \<longrightarrow> sim_dispatch cmd SIM_READY = (SIM_HALT, [encodedOK]))
   \<and> (length cmd = 5 \<and> cmd ! 0 = 0x05 \<and> cmd ! 2 AND 0x08 = 0
      \<longrightarrow> sim_dispatch cmd SIM_HALT = (SIM_HALT, []))"
  by (auto simp: sim_dispatch_def ISO14443B_REQB_def ISO14443B_HALT_def ISO14443B_ATTRIB_def
        Let_def)

text \<open>The frames of the specification's scenario E4.\<close>

theorem sim_wupb_hltb_reqb_witness:
  "sim_dispatch [0x05, 0x00, 0x08, 0x39, 0x73] SIM_IDLE = (SIM_READY, [encodedATQB])
   \<and> sim_dispatch [0x05, 0x00, 0x08, 0x39, 0x73] SIM_HALT = (SIM_READY, [encodedATQB])
   \<and> sim_dispatch [0x50, 0xAA, 0xAA, 0xAA, 0xAA, 0xF4, 0xE0] SIM_READY = (SIM_HALT, [encodedOK])
   \<and> sim_dispatch [0x05, 0x00, 0x00, 0x71, 0xFF] SIM_HALT = (SIM_HALT, [])"
  using sim_wupb_hltb_reqb [of "[0x05, 0x00, 0x08, 0x39, 0x73]" SIM_IDLE]
        sim_wupb_hltb_reqb [of "[0x05, 0x00, 0x08, 0x39, 0x73]" SIM_HALT]
        sim_wupb_hltb_reqb [of "[0x50, 0xAA, 0xAA, 0xAA, 0xAA, 0xF4, 0xE0]" SIM_READY]
        sim_wupb_hltb_reqb [of "[0x05, 0x00, 0x00, 0x71, 0xFF]" SIM_HALT]
  by simp

text \<open>The scenario E4 as a run of the loop from \<open>IDLE\<close>: WUPB, HLTB, REQB.\<close>

lemma sim_scenario_E4:
  "sim_run [[0x05, 0x00, 0x08, 0x39, 0x73], [0x50, 0xAA, 0xAA, 0xAA, 0xAA, 0xF4, 0xE0],
            [0x05, 0x00, 0x00, 0x71, 0xFF]] SIM_IDLE []
   = (SIM_HALT, [encodedATQB, encodedOK])"
  by (simp add: sim_pass_def sim_dispatch_def ISO14443B_REQB_def ISO14443B_HALT_def
        ISO14443B_ATTRIB_def Let_def)

subsection \<open>The tag-direction demodulator\<close>

text \<open>
  Claim C3 says that a call of \<open>Handle14443bSamplesFromTag\<close> in a state with
  \<open>len \<le> max_len\<close> leaves \<open>len \<le> max_len\<close> and stores no byte at an offset from \<open>max_len\<close>
  on. The code at the failing input: the demodulator has received three bytes into a buffer
  of three bytes and is in the stop bit of a fourth byte. The next call stores that byte,
  \<open>55\<close>, at offset 3 and makes \<open>len\<close> 4.
\<close>

theorem demod_stores_past_max_len:
  "Demod_state demod_buffer_full = DEMOD_RECEIVING_DATA
   \<and> Demod_max_len demod_buffer_full = 3
   \<and> Demod_len demod_buffer_full = 3
   \<and> Demod_output demod_buffer_full 3 = 0
   \<and> Demod_len (snd (Handle14443bSamplesFromTag 20 0 demod_buffer_full)) = 4
   \<and> Demod_max_len (snd (Handle14443bSamplesFromTag 20 0 demod_buffer_full)) = 3
   \<and> Demod_output (snd (Handle14443bSamplesFromTag 20 0 demod_buffer_full)) 3 = 0x55"
  by code_simp

subsection \<open>Receiving a tag answer\<close>

lemma demod_state_value_lt:
  "(demod_state_value st < 1) = (st = DEMOD_UNSYNCD)"
  by (cases st) simp_all

lemma answer_pass_timeout_iff:
  assumes "rl_ret l = PM3_SUCCESS"
  shows "(fst (answer_pass timeout e l) \<and> rl_ret (snd (answer_pass timeout e l)) = PM3_ETIMEOUT)
       = (\<not> ev_stop e
          \<and> \<not> fst (Handle14443bSamplesFromTag (sample_ci e) (sample_cq e) (rl_demod l))
          \<and> GetCountSspClkDelta (pass_start_time e l) (ev_clk e) > timeout
          \<and> Demod_state (snd (Handle14443bSamplesFromTag (sample_ci e) (sample_cq e) (rl_demod l)))
              = DEMOD_UNSYNCD)"
  using assms by (auto simp: answer_pass_def Let_def demod_state_value_lt)

lemma answer_pass_continue:
  assumes "\<not> fst (answer_pass timeout e l)"
  shows "rl_ret (snd (answer_pass timeout e l)) = rl_ret l"
  using assms by (auto simp: answer_pass_def Let_def split: if_splits)

lemma answer_pass_timeout_state:
  assumes "rl_ret l = PM3_SUCCESS" "fst (answer_pass timeout e l)"
    "rl_ret (snd (answer_pass timeout e l)) = PM3_ETIMEOUT"
  shows "Demod_state (rl_demod (snd (answer_pass timeout e l))) = DEMOD_UNSYNCD"
  using assms by (auto simp: answer_pass_def Let_def demod_state_value_lt split: if_splits)

lemma answer_loop_timeout_state:
  "rl_ret l = PM3_SUCCESS \<Longrightarrow> answer_loop timeout es l = Some l' \<Longrightarrow> rl_ret l' = PM3_ETIMEOUT
   \<Longrightarrow> Demod_state (rl_demod l') = DEMOD_UNSYNCD"
proof (induction es arbitrary: l)
  case Nil
  then show ?case by simp
next
  case (Cons e es)
  show ?case
  proof (cases "fst (answer_pass timeout e l)")
    case True
    with Cons.prems have "l' = snd (answer_pass timeout e l)" by simp
    with Cons.prems True show ?thesis
      using answer_pass_timeout_state by blast
  next
    case False
    with Cons.prems have "answer_loop timeout es (snd (answer_pass timeout e l)) = Some l'"
      by simp
    moreover from False Cons.prems have "rl_ret (snd (answer_pass timeout e l)) = PM3_SUCCESS"
      by (simp add: answer_pass_continue)
    ultimately show ?thesis
      using Cons.IH Cons.prems(3) by blast
  qed
qed


text \<open>
  Claim C4, as stated: the receive times out when the tick difference exceeds the timeout
  while the demodulator is in \<open>UNSYNCD\<close> or \<open>PHASE_REF_TRAINING\<close>. It fails in
  \<open>PHASE_REF_TRAINING\<close>: with a timeout of 10 ticks and a first sample of amplitude 20 at
  tick 1000 the difference exceeds the timeout and the demodulator is in
  \<open>PHASE_REF_TRAINING\<close>, yet the pass does not leave the loop and no error is set.
\<close>

theorem timeout_in_training_counterexample:
  "GetCountSspClkDelta (pass_start_time late_first_sample rx_loop_start) (ev_clk late_first_sample) > 10
   \<and> Demod_state (rl_demod (snd (answer_pass 10 late_first_sample rx_loop_start)))
       = DEMOD_PHASE_REF_TRAINING
   \<and> \<not> fst (answer_pass 10 late_first_sample rx_loop_start)
   \<and> rl_ret (snd (answer_pass 10 late_first_sample rx_loop_start)) = PM3_SUCCESS"
  by code_simp


text \<open>
  Claim C4, amended. A pass of the receive loop that starts without error ends the loop with
  \<open>PM3_ETIMEOUT\<close> exactly when the operator has not stopped it, its sample does not complete
  a frame, the 32-bit modular tick difference exceeds the timeout, and the demodulator is in
  \<open>UNSYNCD\<close> after the sample; in every other state, \<open>PHASE_REF_TRAINING\<close> included, the
  demodulator goes on whatever the ticks. So whenever \<open>Get14443bAnswerFromTag\<close> returns
  \<open>PM3_ETIMEOUT\<close>, the demodulator is in \<open>UNSYNCD\<close>.
\<close>

theorem answer_timeout_only_unsynced:
  "(rl_ret l = PM3_SUCCESS \<longrightarrow>
      (fst (answer_pass timeout e l) \<and> rl_ret (snd (answer_pass timeout e l)) = PM3_ETIMEOUT)
      = (\<not> ev_stop e
         \<and> \<not> fst (Handle14443bSamplesFromTag (sample_ci e) (sample_cq e) (rl_demod l))
         \<and> GetCountSspClkDelta (pass_start_time e l) (ev_clk e) > timeout
         \<and> Demod_state (snd (Handle14443bSamplesFromTag (sample_ci e) (sample_cq e) (rl_demod l)))
             = DEMOD_UNSYNCD))
   \<and> (Get14443bAnswerFromTag response max_len timeout eof_time dma_ok ssc_ok events d = Some r
        \<and> an_status r = PM3_ETIMEOUT
      \<longrightarrow> Demod_state (an_demod r) = DEMOD_UNSYNCD)"
proof (intro conjI impI)
  assume "rl_ret l = PM3_SUCCESS"
  then show "(fst (answer_pass timeout e l) \<and> rl_ret (snd (answer_pass timeout e l)) = PM3_ETIMEOUT)
      = (\<not> ev_stop e
         \<and> \<not> fst (Handle14443bSamplesFromTag (sample_ci e) (sample_cq e) (rl_demod l))
         \<and> GetCountSspClkDelta (pass_start_time e l) (ev_clk e) > timeout
         \<and> Demod_state (snd (Handle14443bSamplesFromTag (sample_ci e) (sample_cq e) (rl_demod l)))
             = DEMOD_UNSYNCD)"
    by (rule answer_pass_timeout_iff)
next
  assume a: "Get14443bAnswerFromTag response max_len timeout eof_time dma_ok ssc_ok events d = Some r
        \<and> an_status r = PM3_ETIMEOUT"
  let ?l0 = "\<lparr>rl_samples = 0, rl_dma_start_time = 0, rl_eof_time = eof_time,
                    rl_ret = PM3_SUCCESS, rl_demod = Demod14bInit response max_len d\<rparr>"
  from a obtain l' where l': "answer_loop timeout events ?l0 = Some l'"
    and st: "rl_ret l' = PM3_ETIMEOUT" and dm: "an_demod r = rl_demod l'"
    by (auto simp: Get14443bAnswerFromTag_def Let_def split: if_splits option.splits)
  have "rl_ret ?l0 = PM3_SUCCESS" by simp
  from answer_loop_timeout_state [OF this l' st] dm
  show "Demod_state (an_demod r) = DEMOD_UNSYNCD" by simp
qed

theorem answer_timeout_only_unsynced_witness:
  "rl_ret rx_loop_start = PM3_SUCCESS
   \<and> fst (answer_pass 10 late_quiet_sample rx_loop_start)
   \<and> rl_ret (snd (answer_pass 10 late_quiet_sample rx_loop_start)) = PM3_ETIMEOUT
   \<and> \<not> (fst (answer_pass 10 late_first_sample rx_loop_start)
          \<and> rl_ret (snd (answer_pass 10 late_first_sample rx_loop_start)) = PM3_ETIMEOUT)
   \<and> (\<exists>r. Get14443bAnswerFromTag (\<lambda>_. 0) 8 10 0 True True [late_first_sample, late_quiet_sample]
             demod_zero = Some r
          \<and> an_status r = PM3_ETIMEOUT \<and> Demod_state (an_demod r) = DEMOD_UNSYNCD)"
proof -
  have s: "rl_ret rx_loop_start = PM3_SUCCESS"
    by (simp add: rx_loop_start_def)
  have q: "\<not> ev_stop late_quiet_sample
         \<and> \<not> fst (Handle14443bSamplesFromTag (sample_ci late_quiet_sample)
                   (sample_cq late_quiet_sample) (rl_demod rx_loop_start))
         \<and> GetCountSspClkDelta (pass_start_time late_quiet_sample rx_loop_start)
              (ev_clk late_quiet_sample) > 10
         \<and> Demod_state (snd (Handle14443bSamplesFromTag (sample_ci late_quiet_sample)
                   (sample_cq late_quiet_sample) (rl_demod rx_loop_start))) = DEMOD_UNSYNCD"
    by code_simp
  have f: "Demod_state (snd (Handle14443bSamplesFromTag (sample_ci late_first_sample)
                   (sample_cq late_first_sample) (rl_demod rx_loop_start))) \<noteq> DEMOD_UNSYNCD"
    by code_simp
  have "map_option an_status
          (Get14443bAnswerFromTag (\<lambda>_. 0) 8 10 0 True True [late_first_sample, late_quiet_sample]
             demod_zero) = Some PM3_ETIMEOUT"
    by code_simp
  then obtain r where r: "Get14443bAnswerFromTag (\<lambda>_. 0) 8 10 0 True True
      [late_first_sample, late_quiet_sample] demod_zero = Some r" and t: "an_status r = PM3_ETIMEOUT"
    by auto
  from answer_timeout_only_unsynced [of rx_loop_start 10 late_quiet_sample
        "\<lambda>_. 0" 8 0 True True "[late_first_sample, late_quiet_sample]" demod_zero r]
      answer_timeout_only_unsynced [of rx_loop_start 10 late_first_sample
        "\<lambda>_. 0" 8 0 True True "[late_first_sample, late_quiet_sample]" demod_zero r]
      s q f r t
  show ?thesis by blast
qed

subsection \<open>CRC-B\<close>

text \<open>The CRC-B above on the frames whose CRC bytes the specification and the source spell
  out: WUPB \<open>05 00 08 39 73\<close>, REQB \<open>05 00 00 71 FF\<close>, and the ATQB of the simulator, which
  ends with \<open>5E D7\<close>.\<close>

lemma crc_b_byte_unfold:
  "crc_b_byte c b =
     crc_b_bit (crc_b_bit (crc_b_bit (crc_b_bit (crc_b_bit (crc_b_bit (crc_b_bit (crc_b_bit
       (c XOR ucast b))))))))"
  by (simp add: crc_b_byte_def eval_nat_numeral)

lemma crc_b_bit_eval:
  "crc_b_bit (numeral n)
     = (if numeral n AND (1 :: u16) \<noteq> 0 then drop_bit 1 (numeral n) XOR 0x8408
        else drop_bit 1 (numeral n))"
  "crc_b_bit 0 = 0"
  "crc_b_bit 1 = 0x8408"
  by (simp_all add: crc_b_bit_def)

lemma crc_b_known_frames:
  "with_crc [0x05, 0x00, 0x08] = [0x05, 0x00, 0x08, 0x39, 0x73]"
  "with_crc [0x05, 0x00, 0x00] = [0x05, 0x00, 0x00, 0x71, 0xFF]"
  "with_crc [0x50, 0x82, 0x0D, 0xE1, 0x74, 0x20, 0x38, 0x19, 0x22, 0x00, 0x21, 0x85]
     = [0x50, 0x82, 0x0D, 0xE1, 0x74, 0x20, 0x38, 0x19, 0x22, 0x00, 0x21, 0x85, 0x5E, 0xD7]"
  by (simp_all add: with_crc_def crc_b_def crc_b_byte_unfold crc_b_bit_eval)

subsection \<open>The layer-4 exchange\<close>

lemma upt_lists:
  "[0..<2] = [0, 1]" "[0..<3] = [0, 1, 2]" "[0..<4] = [0, 1, 2, 3]"
  "[0..<5] = [0, 1, 2, 3, 4]" "[0..<7] = [0, 1, 2, 3, 4, 5, 6]"
  by (simp_all add: upt_rec)

lemmas apdu_eval =
  iso14443b_apdu_def apdu_real_cmd_def apdu_wtx_loop.simps apdu_blocknum_rule_def
  check_crc_14443_B_def AddCrc14B_def store_frame_def with_crc_def shl_32_def
  iso14b_set_timeout_def HF14_ETU_TO_SSP_def MAX_14B_TIMEOUT_def session_fwi2_def select_apdu_def
  apdu_final_response_def Let_def upt_lists

text \<open>
  Claim C1 says that after an S(WTX) the next receive uses the configured frame waiting time
  multiplied by WTXM. The code at the failing input: the session has FWI 2, a frame waiting
  time of 4096 ticks, and the tag answers the command with the S(WTX) \<open>F2 05\<close>. The block is
  echoed with WTXM 5 and a fresh CRC, and the next receive is given 1048576 ticks, which is
  \<open>32 * 2 ^ (2 * 5)\<close> ETU, not the 20480 ticks that are five times 4096.
\<close>

theorem apdu_wtx_timeout_eval:
  "map_option ar_trace
     (iso14443b_apdu select_apdu False (\<lambda>_. 0) 64
        [RxFrame (with_crc [0xF2, 0x05]), RxFrame (with_crc [0x02, 0x90, 0x00])] session_fwi2)
   = Some [Transmit (with_crc (0x02 # select_apdu)), Receive 4096,
           Transmit (with_crc [0xF2, 0x05]), Receive 1048576]
   \<and> 5 * s_iso14b_timeout session_fwi2 = 20480"
  by (simp add: apdu_eval)

text \<open>
  Claim C7 says that the session timeout at return equals the one at entry on every path.
  The code at the failing input: the same session and S(WTX), after which the tag stays
  silent. The call returns \<open>PM3_ECARDEXCHANGE\<close> and leaves the timeout at 1048576 ticks
  where it was 4096 at entry.
\<close>

theorem apdu_wtx_failed_receive_eval:
  "map_option (\<lambda>r. (ar_status r, s_iso14b_timeout (ar_session r)))
     (iso14443b_apdu select_apdu False (\<lambda>_. 0) 64
        [RxFrame (with_crc [0xF2, 0x05]), RxTimeout] session_fwi2)
   = Some (PM3_ECARDEXCHANGE, 1048576)
   \<and> s_iso14b_timeout session_fwi2 = 4096"
  by (simp add: apdu_eval)

lemma wtx_loop_cases:
  assumes "apdu_wtx_loop m env rx len s tr = Some w"
  shows "w = WtxDone len rx s env tr
       \<or> (\<exists>etu rx2 tr1. w = WtxFailed (iso14b_set_timeout etu s) rx2 tr1)
       \<or> (\<exists>etu x envt rx3 len3 tr1. env = x # envt
            \<and> apdu_wtx_loop m envt rx3 len3
                 ((iso14b_set_timeout etu s)\<lparr>s_iso14b_timeout := s_iso14b_timeout s\<rparr>) tr1
               = Some w)"
proof (cases "len \<noteq> 0 \<and> rx 0 AND 0xF2 = 0xF2")
  case False
  with assms show ?thesis
    by (subst (asm) apdu_wtx_loop.simps) auto
next
  case True
  with assms show ?thesis
    apply (subst (asm) apdu_wtx_loop.simps)
    apply (auto simp: Let_def split: option.splits if_splits list.splits prod.splits)
    done
qed

lemma wtx_loop_blocknum:
  "apdu_wtx_loop m env rx len s tr = Some w
   \<Longrightarrow> s_iso14b_pcb_blocknum (wtx_session w) = s_iso14b_pcb_blocknum s"
proof (induction env arbitrary: rx len s tr)
  case Nil
  from wtx_loop_cases [OF Nil] show ?case
    by (auto simp: iso14b_set_timeout_def Let_def)
next
  case (Cons x env)
  from wtx_loop_cases [OF Cons.prems] show ?case
  proof (elim disjE exE conjE)
    assume "w = WtxDone len rx s (x # env) tr" then show ?thesis by simp
  next
    fix etu rx2 tr1
    assume "w = WtxFailed (iso14b_set_timeout etu s) rx2 tr1"
    then show ?thesis by (simp add: iso14b_set_timeout_def Let_def)
  next
    fix etu y envt rx3 len3 tr1
    assume e: "x # env = y # envt"
      and r: "apdu_wtx_loop m envt rx3 len3
                 ((iso14b_set_timeout etu s)\<lparr>s_iso14b_timeout := s_iso14b_timeout s\<rparr>) tr1
               = Some w"
    from e have "envt = env" by simp
    with r Cons.IH have "s_iso14b_pcb_blocknum (wtx_session w)
        = s_iso14b_pcb_blocknum ((iso14b_set_timeout etu s)\<lparr>s_iso14b_timeout := s_iso14b_timeout s\<rparr>)"
      by blast
    then show ?thesis by (simp add: iso14b_set_timeout_def Let_def)
  qed
qed

text \<open>
  Claim C2. Whenever \<open>iso14443b_apdu\<close> returns, the block number of the session is the one
  at entry toggled if the S(WTX) loop ended on a response of at least 3 bytes whose first
  byte is an I-block (\<open>& 0xC0\<close> is 0) or an R(ACK) block (\<open>& 0xD0\<close> is \<open>0x80\<close>) and has the
  block number at entry as its lowest bit; in every other case, also when the call never
  reached the end of the loop, it is the one at entry.
\<close>

theorem apdu_blocknum_toggle:
  assumes "iso14443b_apdu msg send_chaining rxdata rxmaxlen env s = Some r"
  shows "s_iso14b_pcb_blocknum (ar_session r)
         = (case apdu_final_response msg send_chaining rxdata rxmaxlen env s of
              Some (len, resp) \<Rightarrow>
                if len \<ge> 3 \<and> (resp 0 AND 0xC0 = 0 \<or> resp 0 AND 0xD0 = 0x80)
                     \<and> resp 0 AND 0x01 = s_iso14b_pcb_blocknum s
                then s_iso14b_pcb_blocknum s XOR 1
                else s_iso14b_pcb_blocknum s
            | None \<Rightarrow> s_iso14b_pcb_blocknum s)"
proof (cases env)
  case Nil
  with assms show ?thesis
    by (auto simp: iso14443b_apdu_def apdu_final_response_def Let_def)
next
  case (Cons x env')
  obtain st rx1 len1 where rcv: "receive_answer rxmaxlen x rxdata 0 = (st, rx1, len1)"
    by (cases "receive_answer rxmaxlen x rxdata 0") auto
  show ?thesis
  proof (cases "st = PM3_SUCCESS \<and> len1 \<noteq> 0")
    case False
    with assms Cons rcv show ?thesis
      by (auto simp: iso14443b_apdu_def apdu_final_response_def Let_def split: if_splits)
  next
    case True
    let ?tr0 = "[Transmit (apdu_real_cmd msg send_chaining s), Receive (s_iso14b_timeout s)]"
    from assms Cons rcv True obtain w where w: "apdu_wtx_loop rxmaxlen env' rx1 len1 s ?tr0 = Some w"
      by (auto simp: iso14443b_apdu_def Let_def split: option.splits)
    from w have b: "s_iso14b_pcb_blocknum (wtx_session w) = s_iso14b_pcb_blocknum s"
      by (rule wtx_loop_blocknum)
    show ?thesis
    proof (cases w)
      case (WtxFailed s' rx' tr')
      with assms Cons rcv True w b show ?thesis
        by (auto simp: iso14443b_apdu_def apdu_final_response_def Let_def)
    next
      case (WtxDone len data_bytes s' e' tr')
      with assms Cons rcv True w b show ?thesis
        by (auto simp: iso14443b_apdu_def apdu_final_response_def apdu_blocknum_rule_def Let_def
              split: if_splits)
    qed
  qed
qed

text \<open>The answer \<open>02 90 00\<close> to a command sent with block number 0 toggles it to 1.\<close>

theorem apdu_blocknum_toggle_witness:
  "s_iso14b_pcb_blocknum session_fwi2 = 0
   \<and> (\<exists>r. iso14443b_apdu select_apdu False (\<lambda>_. 0) 64 [RxFrame (with_crc [0x02, 0x90, 0x00])]
           session_fwi2 = Some r \<and> s_iso14b_pcb_blocknum (ar_session r) = 1)"
proof -
  have "map_option ar_status
          (iso14443b_apdu select_apdu False (\<lambda>_. 0) 64 [RxFrame (with_crc [0x02, 0x90, 0x00])]
             session_fwi2) = Some PM3_SUCCESS"
    by (simp add: apdu_eval)
  then obtain r where r: "iso14443b_apdu select_apdu False (\<lambda>_. 0) 64
      [RxFrame (with_crc [0x02, 0x90, 0x00])] session_fwi2 = Some r"
    by blast
  have "map_option (\<lambda>p. (fst p, snd p 0))
             (apdu_final_response select_apdu False (\<lambda>_. 0) 64
                [RxFrame (with_crc [0x02, 0x90, 0x00])] session_fwi2) = Some (5, 0x02)"
    by (simp add: apdu_eval)
  then obtain resp where f: "apdu_final_response select_apdu False (\<lambda>_. 0) 64
                [RxFrame (with_crc [0x02, 0x90, 0x00])] session_fwi2 = Some (5, resp)"
    and g: "resp 0 = 0x02"
    by auto
  have b: "s_iso14b_pcb_blocknum session_fwi2 = 0"
    by (simp add: session_fwi2_def)
  from apdu_blocknum_toggle [OF r] have "s_iso14b_pcb_blocknum (ar_session r) = 1"
    by (simp add: f g b)
  with r b show ?thesis by blast
qed

subsection \<open>The reader-bit encoder\<close>

lemma and_80_bit7: "((d :: u8) AND 0x80 \<noteq> 0) = bit d 7"
proof -
  have e: "(0x80 :: u8) = 2 ^ 7" by simp
  show ?thesis
    unfolding e by (simp only: and_exp_eq_0_iff_not_bit not_not)
qed

lemma bit_shl1: "i < 7 \<Longrightarrow> bit (push_bit 1 (d :: u8)) (7 - i) = bit d (7 - Suc i)"
  by (simp only: bit_push_bit_iff) (auto simp: possible_bit_word)

lemma tx_bits_eq: "n \<le> 8 \<Longrightarrow> tx_bits n d = map (\<lambda>i. bit d (7 - i)) [0..<n]"
proof (induction n arbitrary: d)
  case 0
  then show ?case by simp
next
  case (Suc n)
  then have n: "n \<le> 7" by simp
  from Suc have "tx_bits n (push_bit 1 d) = map (\<lambda>i. bit (push_bit 1 d) (7 - i)) [0..<n]"
    by simp
  then have "tx_bits (Suc n) d = bit d 7 # map (\<lambda>i. bit (push_bit 1 d) (7 - i)) [0..<n]"
    by (simp only: tx_bits.simps and_80_bit7)
  also have "map (\<lambda>i. bit (push_bit 1 d) (7 - i)) [0..<n] = map (\<lambda>i. bit d (7 - Suc i)) [0..<n]"
  proof (rule map_cong [OF refl])
    fix i assume "i \<in> set [0..<n]"
    with n have "i < 7" by simp
    then show "bit (push_bit 1 d) (7 - i) = bit d (7 - Suc i)" by (rule bit_shl1)
  qed
  also have "bit d 7 # map (\<lambda>i. bit d (7 - Suc i)) [0..<n] = map (\<lambda>i. bit d (7 - i)) [0..<Suc n]"
    by (simp add: map_upt_Suc del: upt_Suc)
  finally show ?case .
qed

lemma stuffed_byte_bits:
  fixes x :: u8 and b :: bool and k :: nat
  assumes "k < 8" "k > 0 \<longrightarrow> (\<forall>j. j < 8 - k \<longrightarrow> \<not> bit x j)"
  defines "x0 \<equiv> (if k = 0 then 0 else x)"
  defines "y \<equiv> (if b then x0 OR push_bit (7 - k) 1 else x0)"
  shows "bit y (7 - k) = b"
    and "\<And>i. i < k \<Longrightarrow> bit y (7 - i) = bit x (7 - i)"
    and "\<And>j. j < 7 - k \<Longrightarrow> \<not> bit y j"
proof -
  have p: "\<And>n. bit (2 ^ (7 - k) :: u8) n = (n = 7 - k)"
    using assms(1) by (auto simp: bit_exp_iff possible_bit_word)
  have z: "\<And>j. j < 8 - k \<Longrightarrow> \<not> bit x0 j"
    using assms(2) by (auto simp: x0_def)
  show "bit y (7 - k) = b"
    using z [of "7 - k"] assms(1) by (auto simp: y_def bit_or_iff p)
  show "\<And>i. i < k \<Longrightarrow> bit y (7 - i) = bit x (7 - i)"
    using assms(1) by (auto simp: y_def x0_def bit_or_iff p)
  show "\<And>j. j < 7 - k \<Longrightarrow> \<not> bit y j"
    using z by (auto simp: y_def bit_or_iff p)
qed



lemma tosend_stuffbit_eq:
  "tosend_stuffbit b ts =
     (let m = ToSend_max ts; k = ToSend_bit ts;
          buf' = (ToSend_buf ts)(m := stuffed b k (ToSend_buf ts m))
      in if k + 1 \<ge> 8
         then ts\<lparr>ToSend_buf := buf', ToSend_max := m + 1, ToSend_bit := 0\<rparr>
         else ts\<lparr>ToSend_buf := buf', ToSend_bit := k + 1\<rparr>)"
  by (simp add: tosend_stuffbit_def stuffed_def Let_def)

lemma tx_bits_stuffed:
  assumes "k < 8" "k > 0 \<longrightarrow> (\<forall>j. j < 8 - k \<longrightarrow> \<not> bit x j)"
  shows "tx_bits (Suc k) (stuffed b k x) = tx_bits k x @ [b]"
proof -
  let ?y = "stuffed b k x"
  have y: "?y = (if b then (if k = 0 then 0 else x) OR push_bit (7 - k) 1 else (if k = 0 then 0 else x))"
    by (simp add: stuffed_def Let_def)
  have 1: "bit ?y (7 - k) = b"
    unfolding y by (rule stuffed_byte_bits(1) [OF assms])
  have 2: "\<And>i. i < k \<Longrightarrow> bit ?y (7 - i) = bit x (7 - i)"
    unfolding y by (rule stuffed_byte_bits(2) [OF assms])
  have "tx_bits (Suc k) ?y = map (\<lambda>i. bit ?y (7 - i)) [0..<Suc k]"
    using assms(1) by (intro tx_bits_eq) simp
  also have "\<dots> = map (\<lambda>i. bit ?y (7 - i)) [0..<k] @ [bit ?y (7 - k)]"
    by simp
  also have "map (\<lambda>i. bit ?y (7 - i)) [0..<k] = map (\<lambda>i. bit x (7 - i)) [0..<k]"
    by (rule map_cong [OF refl]) (simp add: 2)
  also have "map (\<lambda>i. bit x (7 - i)) [0..<k] = tx_bits k x"
    using assms(1) by (simp add: tx_bits_eq)
  finally show ?thesis by (simp add: 1)
qed

lemma stuffbit_inv:
  assumes "tosend_inv ts"
  shows "tosend_inv (tosend_stuffbit b ts)"
proof -
  let ?k = "ToSend_bit ts" and ?x = "ToSend_buf ts (ToSend_max ts)"
  from assms have k: "?k < 8" and z: "?k > 0 \<longrightarrow> (\<forall>j. j < 8 - ?k \<longrightarrow> \<not> bit ?x j)"
    by (simp_all add: tosend_inv_def)
  have y: "stuffed b ?k ?x = (if b then (if ?k = 0 then 0 else ?x) OR push_bit (7 - ?k) 1 else (if ?k = 0 then 0 else ?x))"
    by (simp add: stuffed_def Let_def)
  have 3: "\<And>j. j < 7 - ?k \<Longrightarrow> \<not> bit (stuffed b ?k ?x) j"
    unfolding y by (rule stuffed_byte_bits(3) [OF k z])
  show ?thesis
    using k 3 by (simp add: tosend_stuffbit_eq tosend_inv_def Let_def)
qed

lemma stuffbit_bits:
  assumes "tosend_inv ts"
  shows "tosend_bits (tosend_stuffbit b ts) = tosend_bits ts @ [b]"
proof -
  let ?k = "ToSend_bit ts" and ?m = "ToSend_max ts" and ?x = "ToSend_buf ts (ToSend_max ts)"
  from assms have k: "?k < 8" and z: "?k > 0 \<longrightarrow> (\<forall>j. j < 8 - ?k \<longrightarrow> \<not> bit ?x j)"
    by (simp_all add: tosend_inv_def)
  note t = tx_bits_stuffed [OF k z, of b]
  let ?buf' = "(ToSend_buf ts)(?m := stuffed b ?k ?x)"
  have pre: "map (\<lambda>c. tx_bits 8 (?buf' c)) [0..<?m] = map (\<lambda>c. tx_bits 8 (ToSend_buf ts c)) [0..<?m]"
    by (rule map_cong [OF refl]) simp
  have at_m: "?buf' ?m = stuffed b ?k ?x"
    by simp
  show ?thesis
  proof (cases "?k + 1 \<ge> 8")
    case True
    with k have k7: "?k = 7" by simp
    from t k7 have t8: "tx_bits 8 (stuffed b ?k ?x) = tx_bits ?k ?x @ [b]"
      by (simp add: eval_nat_numeral)
    from True have "tosend_bits (tosend_stuffbit b ts)
        = concat (map (\<lambda>c. tx_bits 8 (?buf' c)) [0..<Suc ?m]) @ tx_bits 0 (?buf' (Suc ?m))"
      by (simp add: tosend_stuffbit_eq tosend_bits_def Let_def
            del: tx_bits.simps upt_Suc fun_upd_apply)
    also have "\<dots> = concat (map (\<lambda>c. tx_bits 8 (?buf' c)) [0..<?m]) @ tx_bits 8 (?buf' ?m)"
      by (simp del: tx_bits.simps(2) fun_upd_apply)
    also have "\<dots> = concat (map (\<lambda>c. tx_bits 8 (ToSend_buf ts c)) [0..<?m])
                      @ tx_bits ?k ?x @ [b]"
      by (simp only: pre at_m t8)
    also have "\<dots> = tosend_bits ts @ [b]"
      by (simp add: tosend_bits_def del: tx_bits.simps)
    finally show ?thesis .
  next
    case False
    then have "tosend_bits (tosend_stuffbit b ts)
        = concat (map (\<lambda>c. tx_bits 8 (?buf' c)) [0..<?m]) @ tx_bits (Suc ?k) (?buf' ?m)"
      by (simp add: tosend_stuffbit_eq tosend_bits_def Let_def
            del: tx_bits.simps upt_Suc fun_upd_apply)
    also have "\<dots> = concat (map (\<lambda>c. tx_bits 8 (ToSend_buf ts c)) [0..<?m])
                      @ tx_bits ?k ?x @ [b]"
      by (simp only: pre at_m t)
    also have "\<dots> = tosend_bits ts @ [b]"
      by (simp add: tosend_bits_def del: tx_bits.simps)
    finally show ?thesis .
  qed
qed


lemma stuff_zeros_bits:
  "tosend_inv ts \<Longrightarrow>
   tosend_inv (stuff_zeros n ts) \<and> tosend_bits (stuff_zeros n ts) = tosend_bits ts @ replicate n False"
proof (induction n arbitrary: ts)
  case 0
  then show ?case by simp
next
  case (Suc n)
  from Suc.prems have i: "tosend_inv (tosend_stuffbit False ts)"
    by (rule stuffbit_inv)
  from Suc.IH [OF i] Suc.prems show ?case
    by (simp add: stuffbit_bits replicate_append_same [symmetric] del: replicate_append_same)
qed

lemma upt_0_8: "[0..<8] = [0, 1, 2, 3, 4, 5, 6, 7]"
  by (simp add: upt_rec)

lemma data_bit: "(drop_bit i (b :: u8) AND 1 \<noteq> 0) = bit b i"
proof -
  have "(drop_bit i b AND 1 \<noteq> 0) = bit (drop_bit i b) 0"
    using and_exp_eq_0_iff_not_bit [of "drop_bit i b" 0] by simp
  then show ?thesis
    by (simp add: bit_drop_bit_eq)
qed

lemma data_bit0: "((b :: u8) AND 1 \<noteq> 0) = bit b 0"
  using and_exp_eq_0_iff_not_bit [of b 0] by simp

lemma code_char_bits:
  assumes "tosend_inv ts"
  shows "tosend_inv (code_char b ts) \<and> tosend_bits (code_char b ts) = tosend_bits ts @ spec_char b"
proof -
  have step: "\<And>x t. tosend_inv t \<Longrightarrow>
      tosend_inv (tosend_stuffbit x t) \<and> tosend_bits (tosend_stuffbit x t) = tosend_bits t @ [x]"
    by (simp add: stuffbit_inv stuffbit_bits)
  have d: "\<And>i. (drop_bit i b AND 1 \<noteq> 0) = bit b i"
    by (rule data_bit)
  have d0: "(b AND 1 \<noteq> 0) = bit b 0"
    by (rule data_bit0)
  show ?thesis
    using assms
    by (simp only: code_char_def spec_char_def Let_def upt_0_8 d d0 list.map)
       (simp add: step)
qed

lemma code_chars_bits:
  "tosend_inv ts \<Longrightarrow> 0 \<le> i \<Longrightarrow> nat len \<le> length cmd \<Longrightarrow>
   tosend_inv (code_chars cmd len i ts)
   \<and> tosend_bits (code_chars cmd len i ts)
       = tosend_bits ts @ concat (map spec_char (drop (nat i) (take (nat len) cmd)))"
proof (induction cmd len i ts rule: code_chars.induct)
  case (1 cmd len i ts)
  show ?case
  proof (cases "i < len")
    case False
    with "1.prems" show ?thesis
      by (simp add: code_chars.simps [of cmd len i ts])
  next
    case True
    let ?ts' = "code_char (cmd ! nat i) ts"
    from "1.prems"(1) have c: "tosend_inv ?ts'"
      and cb: "tosend_bits ?ts' = tosend_bits ts @ spec_char (cmd ! nat i)"
      using code_char_bits by blast+
    from True "1.prems" have lt: "nat i < length (take (nat len) cmd)"
      by simp
    from "1.prems"(2) have sn: "nat (i + 1) = Suc (nat i)"
      by arith
    from True "1.prems" have nth: "take (nat len) cmd ! nat i = cmd ! nat i"
      by simp
    have d: "drop (nat i) (take (nat len) cmd)
             = cmd ! nat i # drop (nat (i + 1)) (take (nat len) cmd)"
      using Cons_nth_drop_Suc [OF lt] by (simp only: sn nth)
    from "1.IH" [OF True c] "1.prems" have
      "tosend_inv (code_chars cmd len (i + 1) ?ts')
       \<and> tosend_bits (code_chars cmd len (i + 1) ?ts')
           = tosend_bits ?ts' @ concat (map spec_char (drop (nat (i + 1)) (take (nat len) cmd)))"
      by simp
    with True cb d show ?thesis
      by (simp add: code_chars.simps [of cmd len i ts])
  qed
qed

lemma tosend_reset_bits: "tosend_inv (tosend_reset ts) \<and> tosend_bits (tosend_reset ts) = []"
  by (simp add: tosend_reset_def tosend_inv_def tosend_bits_def)

text \<open>
  Claim C10. For every byte string and every length that does not exceed it, the bits that
  \<open>CodeIso14443bAsReader\<close> leaves in \<open>ToSend\<close> with framing are exactly ten zeros and two
  ones, then for each of the first \<open>len\<close> bytes a zero, its eight data bits from the least
  significant, and a one, then ten zeros; without framing they are the bits of the bytes
  alone.
\<close>

theorem CodeIso14443bAsReader_frame:
  assumes "nat len \<le> length cmd"
  shows "tosend_bits (CodeIso14443bAsReader cmd len True ts) = spec_frame (take (nat len) cmd)
       \<and> tosend_bits (CodeIso14443bAsReader cmd len False ts)
           = concat (map spec_char (take (nat len) cmd))"
proof -
  let ?t0 = "tosend_reset ts"
  have r: "tosend_inv ?t0" and rb: "tosend_bits ?t0 = []"
    using tosend_reset_bits by blast+
  let ?z = "stuff_zeros 10 ?t0"
  have z: "tosend_inv ?z" and zb: "tosend_bits ?z = replicate 10 False"
    using stuff_zeros_bits [OF r, of 10] rb by simp_all
  let ?s1 = "tosend_stuffbit True ?z"
  have s1: "tosend_inv ?s1" and s1b: "tosend_bits ?s1 = replicate 10 False @ [True]"
    using stuffbit_inv [OF z] stuffbit_bits [OF z] zb by simp_all
  let ?s2 = "tosend_stuffbit True ?s1"
  have s2: "tosend_inv ?s2" and s2b: "tosend_bits ?s2 = replicate 10 False @ [True, True]"
    using stuffbit_inv [OF s1] stuffbit_bits [OF s1] s1b by simp_all
  let ?c = "code_chars cmd len 0 ?s2"
  have c: "tosend_inv ?c"
    and cb: "tosend_bits ?c = tosend_bits ?s2 @ concat (map spec_char (take (nat len) cmd))"
    using code_chars_bits [OF s2 _ assms, of 0] by simp_all
  have f: "tosend_bits (stuff_zeros 10 ?c) = tosend_bits ?c @ replicate 10 False"
    using stuff_zeros_bits [OF c, of 10] by simp
  have u: "tosend_bits (code_chars cmd len 0 ?t0) = concat (map spec_char (take (nat len) cmd))"
    using code_chars_bits [OF r _ assms, of 0] rb by simp
  show ?thesis
    using f cb s2b u
    by (simp add: CodeIso14443bAsReader_def spec_frame_def Let_def del: replicate.simps)
qed

text \<open>For the single byte \<open>01\<close> the bits between start and end of frame are
  0 1 0 0 0 0 0 0 0 1.\<close>

theorem CodeIso14443bAsReader_frame_witness:
  "nat 1 \<le> length [0x01 :: u8]
   \<and> tosend_bits (CodeIso14443bAsReader [0x01] 1 True tosend_empty)
       = replicate 10 False @ [True, True]
         @ [False, True, False, False, False, False, False, False, False, True]
         @ replicate 10 False
   \<and> tosend_bits (CodeIso14443bAsReader [0x01] 1 False tosend_empty)
       = [False, True, False, False, False, False, False, False, False, True]"
proof -
  have l: "nat 1 \<le> length [0x01 :: u8]" by simp
  have c: "spec_char 0x01 = [False, True, False, False, False, False, False, False, False, True]"
    by (simp add: spec_char_def upt_0_8)
  from CodeIso14443bAsReader_frame [OF l, of tosend_empty] l c show ?thesis
    by (simp add: spec_frame_def del: replicate.simps)
qed

end
